theory Spec2Isabelle
  imports Main
begin

section \<open>Results and errors\<close>

text \<open>
  Go errors are values. \<open>ErrSyntax\<close> and \<open>ErrRange\<close> are the two errors of
  \<^verbatim>\<open>strconv.ParseUint\<close> (they carry the offending input); every other error (the
  registry's, the port parser's own, the container runtime's) is \<open>ErrOther\<close> with its
  message. A function that dereferences a nil pointer does not return at all: it panics.
\<close>

datatype error = ErrSyntax string | ErrRange string | ErrOther string

datatype 'a outcome = Panicked | Returned 'a

section \<open>Library functions called by the wrapper\<close>

text \<open>
  \<^verbatim>\<open>strconv.Itoa\<close>: the decimal rendering of an integer, most significant digit first,
  with a leading minus sign for a negative one; a digit is read from the string of the
  ten digits at its value. No arithmetic is done on ports anywhere in
  the wrapper, so Go's \<^verbatim>\<open>int\<close> is modelled by \<open>int\<close>.
\<close>

definition digits :: string where
  "digits = ''0123456789''"

fun formatBits :: "nat \<Rightarrow> string" where
  "formatBits n =
     (if n < 10 then [digits ! n]
      else formatBits (n div 10) @ [digits ! (n mod 10)])"

declare formatBits.simps [simp del]

definition Itoa :: "int \<Rightarrow> string" where
  "Itoa i = (if i < 0 then CHR ''-'' # formatBits (nat (- i)) else formatBits (nat i))"

text \<open>
  \<^verbatim>\<open>strconv.ParseUint(s, 10, 16)\<close>: the empty string and any byte that is not a decimal
  digit are syntax errors; the value is accumulated byte by byte and the first step that
  exceeds \<open>65535\<close> is a range error.
\<close>

fun parseDigits :: "string \<Rightarrow> string \<Rightarrow> nat \<Rightarrow> error + nat" where
  "parseDigits s0 [] n = Inr n"
| "parseDigits s0 (c # cs) n =
     (if 48 \<le> (of_char c :: nat) \<and> (of_char c :: nat) \<le> 57 then
        (let n1 = n * 10 + (of_char c - 48)
         in if n1 > 65535 then Inl (ErrRange s0) else parseDigits s0 cs n1)
      else Inl (ErrSyntax s0))"

definition ParseUint16 :: "string \<Rightarrow> error + nat" where
  "ParseUint16 s = (if s = [] then Inl (ErrSyntax s) else parseDigits s s 0)"

text \<open>\<^verbatim>\<open>strings.Split(s, "-")\<close>, for a one-byte separator.\<close>

fun Split :: "string \<Rightarrow> char \<Rightarrow> string list" where
  "Split [] sep = [[]]"
| "Split (c # cs) sep =
     (if c = sep then [] # Split cs sep
      else (case Split cs sep of [] \<Rightarrow> [[c]] | p # ps \<Rightarrow> (c # p) # ps))"

text \<open>
  \<^verbatim>\<open>nat.ParsePortRange\<close>, \<^verbatim>\<open>nat.ParsePortRangeToInt\<close> and \<^verbatim>\<open>nat.NewPort\<close> of
  docker's go-connections: a port specification is one decimal 16-bit number or a range
  \<^verbatim>\<open>lo-hi\<close>; the port value is rendered back as \<^verbatim>\<open>lo/proto\<close> (or \<^verbatim>\<open>lo-hi/proto\<close>).
\<close>

definition ParsePortRange :: "string \<Rightarrow> error + nat \<times> nat" where
  "ParsePortRange ports =
     (if ports = [] then Inl (ErrOther ''Empty string specified for ports.'')
      else if CHR ''-'' \<notin> set ports then
        (case ParseUint16 ports of Inl err \<Rightarrow> Inl err | Inr start \<Rightarrow> Inr (start, start))
      else
        (case Split ports (CHR ''-'') of
           p0 # p1 # rest \<Rightarrow>
             (case ParseUint16 p0 of
                Inl err \<Rightarrow> Inl err
              | Inr start \<Rightarrow>
                 (case ParseUint16 p1 of
                    Inl err \<Rightarrow> Inl err
                  | Inr stop \<Rightarrow>
                     if stop < start
                     then Inl (ErrOther (''Invalid range specified for the Port: '' @ ports))
                     else Inr (start, stop)))
         | _ \<Rightarrow> Inl (ErrOther ''index out of range'')))"

definition ParsePortRangeToInt :: "string \<Rightarrow> error + nat \<times> nat" where
  "ParsePortRangeToInt rawPort =
     (if length rawPort = 0 then Inr (0, 0) else ParsePortRange rawPort)"

definition NewPort :: "string \<Rightarrow> string \<Rightarrow> error + string" where
  "NewPort proto port =
     (case ParsePortRangeToInt port of
        Inl err \<Rightarrow> Inl err
      | Inr (portStartInt, portEndInt) \<Rightarrow>
          if portStartInt = portEndInt
          then Inr (formatBits portStartInt @ ''/'' @ proto)
          else Inr (formatBits portStartInt @ ''-'' @ formatBits portEndInt @ ''/'' @ proto))"

text \<open>
  \<^verbatim>\<open>strings.ToLower\<close>. A string whose bytes are all below \<open>0x80\<close> is lower-cased byte
  by byte: the bytes \<^verbatim>\<open>A\<close> to \<^verbatim>\<open>Z\<close> move to \<^verbatim>\<open>a\<close> to \<^verbatim>\<open>z\<close> and every other byte
  stays. Any other string is decoded as UTF-8 and mapped rune by rune through the case
  tables of Unicode (\<^verbatim>\<open>strings.Map(unicode.ToLower, s)\<close>); that mapping is not
  written out here, it is the first argument.
  \<^verbatim>\<open>strings.Join\<close> puts the separator between consecutive elements.
\<close>

definition isASCII :: "string \<Rightarrow> bool" where
  "isASCII s = list_all (\<lambda>c. (of_char c :: nat) < 128) s"

definition lowerByte :: "char \<Rightarrow> char" where
  "lowerByte c =
     (if 65 \<le> (of_char c :: nat) \<and> (of_char c :: nat) \<le> 90
      then char_of (of_char c + 32 :: nat) else c)"

definition ToLower :: "(string \<Rightarrow> string) \<Rightarrow> string \<Rightarrow> string" where
  "ToLower mapUnicode s = (if isASCII s then map lowerByte s else mapUnicode s)"

fun Join :: "string list \<Rightarrow> string \<Rightarrow> string" where
  "Join [] sep = []"
| "Join [a] sep = a"
| "Join (a # b # rest) sep = a @ sep @ Join (b # rest) sep"

section \<open>Data model\<close>

text \<open>
  The wrapper takes the services, their default ports and their names from its package
  \<^verbatim>\<open>services\<close>. What it uses of that package is a parameter here: the lookup
  \<^verbatim>\<open>GetDefaultPort\<close>, the list \<^verbatim>\<open>SupportedServices\<close> and the \<^verbatim>\<open>String\<close> method of a
  service. The type of services is a type variable, and a selection
  (\<^verbatim>\<open>services.ServiceConfig\<close>) has the two fields that the wrapper reads.
\<close>

record 'svc registry =
  GetDefaultPort :: "'svc \<Rightarrow> error + int"
  SupportedServices :: "'svc list"
  String :: "'svc \<Rightarrow> string"

record 'svc ServiceConfig =
  Service :: 'svc
  Port :: int

record PortBinding =
  HostIP :: string
  HostPort :: string

type_synonym PortMap = "string \<rightharpoonup> PortBinding list"

record Config =
  Image :: string
  Env :: "string list"

record HostConfig =
  PortBindings :: PortMap

definition ImageName :: string where
  "ImageName = ''docker.io/localstack/localstack''"

section \<open>Port mapping resolver\<close>

text \<open>
  A selection reaches the resolver as a pointer, \<open>None\<close> being nil; reading a field of a
  nil selection panics. The three results of the Go functions are kept as a tuple, the
  error last, \<open>None\<close> being the nil error and \<open>[]\<close> the nil slice.
\<close>

definition getMappingForServiceConfig ::
  "'svc registry \<Rightarrow> 'svc ServiceConfig option
     \<Rightarrow> (string \<times> PortBinding list \<times> error option) outcome" where
  "getMappingForServiceConfig reg cfg =
     (case cfg of
        None \<Rightarrow> Panicked
      | Some c \<Rightarrow>
         (case GetDefaultPort reg (Service c) of
            Inl err \<Rightarrow> Returned (''nil'', [], Some err)
          | Inr dflt \<Rightarrow>
             (let port = (if Port c < 1 then dflt else Port c)
              in case NewPort ''tcp'' (Itoa dflt) of
                   Inl err \<Rightarrow> Returned (''nil'', [], Some err)
                 | Inr internalPort \<Rightarrow>
                     Returned (internalPort,
                       [\<lparr>HostIP = ''0.0.0.0'', HostPort = Itoa port\<rparr>], None))))"

definition getMappingForService ::
  "'svc registry \<Rightarrow> 'svc \<Rightarrow> (string \<times> PortBinding list \<times> error option) outcome" where
  "getMappingForService reg s =
     (case GetDefaultPort reg s of
        Inl err \<Rightarrow> Returned (''nil'', [], Some err)
      | Inr p \<Rightarrow>
         (case NewPort ''tcp'' (Itoa p) of
            Inl err \<Rightarrow> Returned (''nil'', [], Some err)
          | Inr internalPort \<Rightarrow>
              Returned (internalPort,
                [\<lparr>HostIP = ''0.0.0.0'', HostPort = Itoa p\<rparr>], None)))"

text \<open>
  The two loops of \<^verbatim>\<open>hostConfig\<close>, each with the map built so far; an error leaves the
  loop and the function at once with a nil host configuration.
\<close>

fun hostConfig_selected ::
  "'svc registry \<Rightarrow> 'svc ServiceConfig option list \<Rightarrow> PortMap
     \<Rightarrow> (HostConfig option \<times> error option) outcome" where
  "hostConfig_selected reg [] m = Returned (Some \<lparr>PortBindings = m\<rparr>, None)"
| "hostConfig_selected reg (s # ss) m =
     (case getMappingForServiceConfig reg s of
        Panicked \<Rightarrow> Panicked
      | Returned (internalPort, binding, Some err) \<Rightarrow> Returned (None, Some err)
      | Returned (internalPort, binding, None) \<Rightarrow>
          hostConfig_selected reg ss (m(internalPort \<mapsto> binding)))"

fun hostConfig_supported ::
  "'svc registry \<Rightarrow> 'svc list \<Rightarrow> PortMap
     \<Rightarrow> (HostConfig option \<times> error option) outcome" where
  "hostConfig_supported reg [] m = Returned (Some \<lparr>PortBindings = m\<rparr>, None)"
| "hostConfig_supported reg (s # ss) m =
     (case getMappingForService reg s of
        Panicked \<Rightarrow> Panicked
      | Returned (internalPort, binding, Some err) \<Rightarrow> Returned (None, Some err)
      | Returned (internalPort, binding, None) \<Rightarrow>
          hostConfig_supported reg ss (m(internalPort \<mapsto> binding)))"

definition hostConfig ::
  "'svc registry \<Rightarrow> 'svc ServiceConfig option list
     \<Rightarrow> (HostConfig option \<times> error option) outcome" where
  "hostConfig reg serviceConfigs =
     (if length serviceConfigs > 0
      then hostConfig_selected reg serviceConfigs Map.empty
      else hostConfig_supported reg (SupportedServices reg) Map.empty)"

section \<open>Environment composer\<close>

text \<open>
  The first argument is the mapping that \<^verbatim>\<open>strings.ToLower\<close> applies to a string
  with a byte outside ASCII.
\<close>

fun containerConfig_names ::
  "'svc registry \<Rightarrow> 'svc ServiceConfig option list \<Rightarrow> string list
     \<Rightarrow> string list outcome" where
  "containerConfig_names reg [] names = Returned names"
| "containerConfig_names reg (s # ss) names =
     (case s of
        None \<Rightarrow> Panicked
      | Some c \<Rightarrow> containerConfig_names reg ss (names @ [String reg (Service c)]))"

definition containerConfig ::
  "(string \<Rightarrow> string) \<Rightarrow> 'svc registry \<Rightarrow> string \<Rightarrow> 'svc ServiceConfig option list
     \<Rightarrow> Config outcome" where
  "containerConfig mapUnicode reg img serviceConfigs =
     (if length serviceConfigs > 0 then
        (case containerConfig_names reg serviceConfigs [] of
           Panicked \<Rightarrow> Panicked
         | Returned names \<Rightarrow>
             Returned \<lparr>Image = img,
                       Env = [''SERVICES='' @ ToLower mapUnicode (Join names '','')]\<rparr>)
      else Returned \<lparr>Image = img, Env = []\<rparr>)"

section \<open>Container runtime\<close>

text \<open>
  The docker client, standard output, the logger and the clock are outside the wrapper.
  Every call the wrapper makes to them is recorded, in order, as an event; what a call
  answers is decided by the runtime from the events so far, so a runtime may answer the
  same call differently each time. A client and an output stream are known by a number.
  The background context and the empty option structures passed along are constants and
  are left out of the events. The third argument of \<^verbatim>\<open>ContainerStop\<close> is the pointer
  to a timeout, \<open>None\<close> being nil. A duration counts nanoseconds. A handle is one that
  \<^verbatim>\<open>New\<close> built, so the client it holds is not nil.
  The two renderings to JSON and the Unicode mapping of \<^verbatim>\<open>strings.ToLower\<close> are
  functions of their argument alone and leave no event.
\<close>

type_synonym client = nat
type_synonym stream = nat

datatype event =
    EvNewEnvClient
  | EvImagePull client string
  | EvCopyStdout stream
  | EvLogPrintf string
  | EvContainerCreate client Config HostConfig
  | EvContainerStart client string
  | EvContainerStop client string "int option"
  | EvSleep int

record runtime =
  NewEnvClient :: "event list \<Rightarrow> error + client"
  ImagePull :: "event list \<Rightarrow> client \<Rightarrow> string \<Rightarrow> error + stream"
  Copy :: "event list \<Rightarrow> stream \<Rightarrow> error option"
  ContainerCreate :: "event list \<Rightarrow> client \<Rightarrow> Config \<Rightarrow> HostConfig \<Rightarrow> error + string"
  ContainerStart :: "event list \<Rightarrow> client \<Rightarrow> string \<Rightarrow> error option"
  ContainerStop :: "event list \<Rightarrow> client \<Rightarrow> string \<Rightarrow> int option \<Rightarrow> error option"
  MarshalIndentConfig :: "Config \<Rightarrow> error + string"
  MarshalIndentPorts :: "PortMap \<Rightarrow> error + string"
  MapToLower :: "string \<Rightarrow> string"

record Localstack =
  ContainerID :: string
  dockerClient :: client
  dockerContext :: unit
  containerConfig_field :: Config
  hostConfig_field :: HostConfig

definition Second :: int where
  "Second = 1000000000"

section \<open>Environment lifecycle manager\<close>

text \<open>
  \<^verbatim>\<open>pullImage\<close> receives a client (a pointer, \<open>None\<close> being nil) and at once assigns a
  newly built client to the same variable.
\<close>

definition pullImage ::
  "runtime \<Rightarrow> client option \<Rightarrow> string \<Rightarrow> event list \<Rightarrow> error option \<times> event list" where
  "pullImage rt dockerClient_arg img tr =
     (case NewEnvClient rt tr of
        Inl err \<Rightarrow> (Some err, tr @ [EvNewEnvClient])
      | Inr cl \<Rightarrow>
         (let tr1 = tr @ [EvNewEnvClient]
          in case ImagePull rt tr1 cl img of
               Inl err \<Rightarrow> (Some err, tr1 @ [EvImagePull cl img])
             | Inr _ \<Rightarrow>
                (let tr2 = tr1 @ [EvImagePull cl img]
                 in case ImagePull rt tr2 cl img of
                      Inl err \<Rightarrow> (Some err, tr2 @ [EvImagePull cl img])
                    | Inr out \<Rightarrow>
                       (let tr3 = tr2 @ [EvImagePull cl img]
                        in case Copy rt tr3 out of
                             Some err \<Rightarrow> (Some err, tr3 @ [EvCopyStdout out])
                           | None \<Rightarrow>
                               (None, tr3 @ [EvCopyStdout out,
                                  EvLogPrintf (''Successfully pulled image '' @ img)])))))"

text \<open>
  \<^verbatim>\<open>New\<close> returns a handle (a pointer) and an error. A marshalling error only skips the
  log line. A nil host configuration with a nil error would be dereferenced.
\<close>

definition New ::
  "runtime \<Rightarrow> 'svc registry \<Rightarrow> 'svc ServiceConfig option list \<Rightarrow> event list
     \<Rightarrow> (Localstack option \<times> error option) outcome \<times> event list" where
  "New rt reg cfgs tr =
     (case NewEnvClient rt tr of
        Inl err \<Rightarrow> (Returned (None, Some err), tr @ [EvNewEnvClient])
      | Inr cl \<Rightarrow>
         (case pullImage rt (Some cl) ImageName (tr @ [EvNewEnvClient]) of
            (Some err, tr1) \<Rightarrow> (Returned (None, Some err), tr1)
          | (None, tr1) \<Rightarrow>
             (case containerConfig (MapToLower rt) reg ImageName cfgs of
                Panicked \<Rightarrow> (Panicked, tr1)
              | Returned containerCfg \<Rightarrow>
                 (let tr2 = (case MarshalIndentConfig rt containerCfg of
                               Inl _ \<Rightarrow> tr1
                             | Inr c \<Rightarrow> tr1 @ [EvLogPrintf (''Container config is '' @ c)])
                  in case hostConfig reg cfgs of
                       Panicked \<Rightarrow> (Panicked, tr2)
                     | Returned (_, Some err) \<Rightarrow> (Returned (None, Some err), tr2)
                     | Returned (None, None) \<Rightarrow> (Panicked, tr2)
                     | Returned (Some hostCfg, None) \<Rightarrow>
                        (let tr3 = (case MarshalIndentPorts rt (PortBindings hostCfg) of
                                      Inl _ \<Rightarrow> tr2
                                    | Inr h \<Rightarrow>
                                        tr2 @ [EvLogPrintf
                                          (''Host Config port bindings are '' @ h)])
                         in case ContainerCreate rt tr3 cl containerCfg hostCfg of
                              Inl err \<Rightarrow>
                                (Returned (None, Some err),
                                 tr3 @ [EvContainerCreate cl containerCfg hostCfg])
                            | Inr ident \<Rightarrow>
                                (Returned
                                   (Some \<lparr>ContainerID = ident, dockerClient = cl,
                                          dockerContext = (),
                                          containerConfig_field = containerCfg,
                                          hostConfig_field = hostCfg\<rparr>, None),
                                 tr3 @ [EvContainerCreate cl containerCfg hostCfg]))))))"

definition Start :: "runtime \<Rightarrow> Localstack \<Rightarrow> event list \<Rightarrow> error option \<times> event list" where
  "Start rt l tr =
     (case ContainerStart rt tr (dockerClient l) (ContainerID l) of
        Some err \<Rightarrow> (Some err, tr @ [EvContainerStart (dockerClient l) (ContainerID l)])
      | None \<Rightarrow>
         (let duration = Second * 5
          in (None, tr @ [EvContainerStart (dockerClient l) (ContainerID l),
                          EvSleep duration])))"

definition Stop :: "runtime \<Rightarrow> Localstack \<Rightarrow> event list \<Rightarrow> error option \<times> event list" where
  "Stop rt l tr =
     (case ContainerStop rt tr (dockerClient l) (ContainerID l) None of
        Some err \<Rightarrow> (Some err, tr @ [EvContainerStop (dockerClient l) (ContainerID l) None])
      | None \<Rightarrow>
         (let duration = Second * 5
          in (None, tr @ [EvContainerStop (dockerClient l) (ContainerID l) None,
                          EvSleep duration])))"

section \<open>Vocabulary of the properties\<close>

text \<open>
  A service resolves when the registry knows its default port and the port is a TCP port
  number. The key of a service in the port binding table is its default port with the
  protocol, and the binding of a selection publishes its effective port on all addresses.
\<close>

definition resolves :: "'svc registry \<Rightarrow> 'svc \<Rightarrow> bool" where
  "resolves reg s =
     (case GetDefaultPort reg s of Inl _ \<Rightarrow> False | Inr p \<Rightarrow> 0 \<le> p \<and> p \<le> 65535)"

definition defaultPort :: "'svc registry \<Rightarrow> 'svc \<Rightarrow> int" where
  "defaultPort reg s = (case GetDefaultPort reg s of Inl _ \<Rightarrow> 0 | Inr p \<Rightarrow> p)"

definition internalPortOf :: "'svc registry \<Rightarrow> 'svc \<Rightarrow> string" where
  "internalPortOf reg s = Itoa (defaultPort reg s) @ ''/tcp''"

definition externalPortOf :: "'svc registry \<Rightarrow> 'svc ServiceConfig \<Rightarrow> int" where
  "externalPortOf reg c = (if 0 < Port c then Port c else defaultPort reg (Service c))"

definition bindingOf :: "int \<Rightarrow> PortBinding list" where
  "bindingOf p = [\<lparr>HostIP = ''0.0.0.0'', HostPort = Itoa p\<rparr>]"

section \<open>A registry and a runtime to run the definitions on\<close>

text \<open>
  The three services that the session constructors of the wrapper address, at the ports
  of their endpoints, and one service that the registry does not know. The runtime
  answers every call with success; a stream is numbered by the count of events before
  the call that opened it, so that two pulls give two different streams.
\<close>

datatype sample_service = S3 | SNS | SQS | Unlisted

definition sample_registry :: "sample_service registry" where
  "sample_registry =
     \<lparr>GetDefaultPort = (\<lambda>s. case s of
          S3 \<Rightarrow> Inr 4572 | SNS \<Rightarrow> Inr 4575 | SQS \<Rightarrow> Inr 4576
        | Unlisted \<Rightarrow> Inl (ErrOther ''unsupported service'')),
      SupportedServices = [S3, SNS, SQS],
      String = (\<lambda>s. case s of
          S3 \<Rightarrow> ''S3'' | SNS \<Rightarrow> ''SNS'' | SQS \<Rightarrow> ''SQS'' | Unlisted \<Rightarrow> ''Unlisted'')\<rparr>"

definition sample_runtime :: runtime where
  "sample_runtime =
     \<lparr>NewEnvClient = (\<lambda>tr. Inr 7),
      ImagePull = (\<lambda>tr cl img. Inr (length tr)),
      Copy = (\<lambda>tr out. None),
      ContainerCreate = (\<lambda>tr cl c h. Inr ''c0ffee''),
      ContainerStart = (\<lambda>tr cl ident. None),
      ContainerStop = (\<lambda>tr cl ident t. None),
      MarshalIndentConfig = (\<lambda>c. Inr (Image c)),
      MarshalIndentPorts = (\<lambda>m. Inl (ErrOther ''unsupported type'')),
      MapToLower = (\<lambda>s. s)\<rparr>"

definition sample_handle :: Localstack where
  "sample_handle =
     \<lparr>ContainerID = ''c0ffee'', dockerClient = 7, dockerContext = (),
      containerConfig_field = \<lparr>Image = ImageName, Env = []\<rparr>,
      hostConfig_field = \<lparr>PortBindings = Map.empty\<rparr>\<rparr>"

section \<open>Facts about the library functions\<close>

lemma digit_code: "d < 10 \<Longrightarrow> (of_char (digits ! d) :: nat) = 48 + d"
proof -
  assume "d < 10"
  then have "d \<in> {0, 1, 2, 3, 4, 5, 6, 7, 8, 9}" by auto
  then show ?thesis by (auto simp: digits_def)
qed

lemma formatBits_small: "n < 10 \<Longrightarrow> formatBits n = [digits ! n]"
  by (simp add: formatBits.simps)

lemma formatBits_big:
  "\<not> n < 10 \<Longrightarrow> formatBits n = formatBits (n div 10) @ [digits ! (n mod 10)]"
  by (subst formatBits.simps) simp

lemma formatBits_digits:
  "c \<in> set (formatBits n) \<Longrightarrow> 48 \<le> (of_char c :: nat) \<and> (of_char c :: nat) \<le> 57"
proof (induction n rule: formatBits.induct)
  case (1 n)
  show ?case
  proof (cases "n < 10")
    case True
    with "1.prems" have "c = digits ! n" by (simp add: formatBits_small)
    with True show ?thesis by (simp add: digit_code)
  next
    case False
    with "1.prems" have "c \<in> set (formatBits (n div 10)) \<or> c = digits ! (n mod 10)"
      by (auto simp: formatBits_big)
    then show ?thesis
    proof
      assume "c \<in> set (formatBits (n div 10))"
      with "1.IH" False show ?thesis by simp
    next
      assume "c = digits ! (n mod 10)"
      then show ?thesis by (simp add: digit_code)
    qed
  qed
qed

lemma formatBits_nonempty: "formatBits n \<noteq> []"
  by (subst formatBits.simps) simp

lemma minus_notin_formatBits: "CHR ''-'' \<notin> set (formatBits n)"
proof
  assume "CHR ''-'' \<in> set (formatBits n)"
  from formatBits_digits [OF this] show False by simp
qed

lemma formatBits_length: "10 \<le> n \<Longrightarrow> 2 \<le> length (formatBits n)"
  using formatBits_nonempty [of "n div 10"]
  by (subst formatBits.simps) (cases "formatBits (n div 10)"; simp)

text \<open>Parsing reads back what formatting wrote, up to the 16-bit bound.\<close>

lemma parseDigits_append:
  "parseDigits s0 (xs @ ys) n =
     (case parseDigits s0 xs n of Inl e \<Rightarrow> Inl e | Inr k \<Rightarrow> parseDigits s0 ys k)"
  by (induction xs arbitrary: n) (simp_all add: Let_def)

lemma parseDigits_formatBits:
  "parseDigits s0 (formatBits n) 0 = (if n \<le> 65535 then Inr n else Inl (ErrRange s0))"
proof (induction n rule: formatBits.induct)
  case (1 n)
  show ?case
  proof (cases "n < 10")
    case True
    then show ?thesis by (simp add: formatBits_small digit_code)
  next
    case False
    have r: "n div 10 * 10 + n mod 10 = n" by simp
    show ?thesis
      using "1.IH" False unfolding formatBits_big [OF False] parseDigits_append
      by (auto simp: digit_code r Let_def)
  qed
qed

lemma Split_nonempty: "Split s sep \<noteq> []"
  by (induction s) (simp_all split: list.splits)

text \<open>A port is built from the rendering of exactly the numbers from 0 to 65535.\<close>

lemma NewPort_Itoa_ok:
  assumes "0 \<le> i" and "i \<le> 65535"
  shows "NewPort proto (Itoa i) = Inr (Itoa i @ ''/'' @ proto)"
proof -
  have i: "Itoa i = formatBits (nat i)" using assms by (simp add: Itoa_def)
  have "nat i \<le> 65535" using assms by simp
  then have "ParseUint16 (formatBits (nat i)) = Inr (nat i)"
    by (simp add: ParseUint16_def formatBits_nonempty parseDigits_formatBits)
  then show ?thesis
    unfolding i NewPort_def ParsePortRangeToInt_def ParsePortRange_def
    by (simp add: formatBits_nonempty minus_notin_formatBits)
qed

lemma NewPort_Itoa_large:
  assumes "65535 < i"
  shows "NewPort proto (Itoa i) = Inl (ErrRange (Itoa i))"
proof -
  have i: "Itoa i = formatBits (nat i)" using assms by (simp add: Itoa_def)
  have "\<not> nat i \<le> 65535" using assms by simp
  then have "ParseUint16 (formatBits (nat i)) = Inl (ErrRange (formatBits (nat i)))"
    by (simp add: ParseUint16_def formatBits_nonempty parseDigits_formatBits)
  then show ?thesis
    unfolding i NewPort_def ParsePortRangeToInt_def ParsePortRange_def
    by (simp add: formatBits_nonempty minus_notin_formatBits)
qed

lemma NewPort_Itoa_negative:
  assumes "i < 0"
  shows "NewPort proto (Itoa i) = Inl (ErrSyntax [])"
  using assms Split_nonempty [of "formatBits (nat (- i))" "CHR ''-''"]
  by (simp add: Itoa_def NewPort_def ParsePortRangeToInt_def ParsePortRange_def ParseUint16_def
      split: list.splits)

text \<open>Two numbers with the same rendering are equal.\<close>

lemma digits_inj: "a < 10 \<Longrightarrow> b < 10 \<Longrightarrow> digits ! a = digits ! b \<Longrightarrow> a = b"
proof -
  assume a: "a < 10" and b: "b < 10" and e: "digits ! a = digits ! b"
  from e have "(of_char (digits ! a) :: nat) = of_char (digits ! b)" by simp
  with a b show "a = b" by (simp add: digit_code)
qed

lemma formatBits_inj: "formatBits n = formatBits m \<Longrightarrow> n = m"
proof (induction n arbitrary: m rule: formatBits.induct)
  case (1 n)
  from "1.prems" have len: "length (formatBits n) = length (formatBits m)" by simp
  show ?case
  proof (cases "n < 10")
    case n: True
    show ?thesis
    proof (cases "m < 10")
      case True
      with n "1.prems" show ?thesis by (auto simp: formatBits_small dest: digits_inj)
    next
      case False
      then have "2 \<le> length (formatBits m)" by (simp add: formatBits_length)
      with len n show ?thesis by (simp add: formatBits_small)
    qed
  next
    case n: False
    show ?thesis
    proof (cases "m < 10")
      case True
      from n have "2 \<le> length (formatBits n)" by (simp add: formatBits_length)
      with len True show ?thesis by (simp add: formatBits_small)
    next
      case False
      from "1.prems" have "formatBits (n div 10) = formatBits (m div 10)"
        and c: "digits ! (n mod 10) = digits ! (m mod 10)"
        by (simp_all add: formatBits_big n False)
      with "1.IH" n have d: "n div 10 = m div 10" by simp
      have "n mod 10 = m mod 10" using c by (intro digits_inj) simp_all
      with d show ?thesis by (metis div_mult_mod_eq)
    qed
  qed
qed

lemma Itoa_inj: "0 \<le> i \<Longrightarrow> 0 \<le> j \<Longrightarrow> Itoa i = Itoa j \<Longrightarrow> i = j"
  by (auto simp: Itoa_def dest: formatBits_inj)

text \<open>
  On names of ASCII bytes, lower-casing the joined list is joining the lower-cased
  names, and the Unicode mapping is never asked.
\<close>

lemma isASCII_Join:
  "\<forall>n \<in> set names. isASCII n \<Longrightarrow> isASCII (Join names '','')"
  by (induction names "'',''" rule: Join.induct) (simp_all add: isASCII_def)

lemma lowerByte_Join:
  "map lowerByte (Join names '','') = Join (map (map lowerByte) names) '',''"
  by (induction names "'',''" rule: Join.induct) (simp_all add: lowerByte_def)

lemma ToLower_Join:
  assumes "\<forall>n \<in> set names. isASCII n"
  shows "ToLower mapUnicode (Join names '','') = Join (map (ToLower mapUnicode) names) '',''"
proof -
  have each: "map (ToLower mapUnicode) names = map (map lowerByte) names"
    using assms by (simp add: ToLower_def)
  have "ToLower mapUnicode (Join names '','') = map lowerByte (Join names '','')"
    using isASCII_Join [OF assms] by (simp add: ToLower_def)
  also have "\<dots> = Join (map (map lowerByte) names) '',''"
    by (rule lowerByte_Join)
  finally show ?thesis by (simp only: each)
qed

text \<open>Rules that run the library functions on literals.\<close>

lemmas run_library =
  Itoa_def formatBits.simps digits_def char_of_eq_iff NewPort_def ParsePortRangeToInt_def
  ParsePortRange_def ParseUint16_def ToLower_def isASCII_def lowerByte_def

section \<open>Facts about the resolver\<close>

lemma resolves_cases:
  "resolves reg s \<Longrightarrow>
     GetDefaultPort reg s = Inr (defaultPort reg s) \<and> 0 \<le> defaultPort reg s
       \<and> defaultPort reg s \<le> 65535"
  by (simp add: resolves_def defaultPort_def split: sum.splits)

lemma getMappingForService_resolves:
  "resolves reg s \<Longrightarrow>
     getMappingForService reg s =
       Returned (internalPortOf reg s, bindingOf (defaultPort reg s), None)"
  by (drule resolves_cases)
     (simp add: getMappingForService_def NewPort_Itoa_ok internalPortOf_def bindingOf_def)

lemma getMappingForServiceConfig_resolves:
  "resolves reg (Service c) \<Longrightarrow>
     getMappingForServiceConfig reg (Some c) =
       Returned (internalPortOf reg (Service c), bindingOf (externalPortOf reg c), None)"
  by (drule resolves_cases)
     (simp add: getMappingForServiceConfig_def NewPort_Itoa_ok internalPortOf_def
        bindingOf_def externalPortOf_def not_less Let_def)

text \<open>Nothing else resolves: outside these services the lookup or the port is an error.\<close>

lemma getMappingForServiceConfig_ok_iff:
  "(\<exists>p bs. getMappingForServiceConfig reg (Some c) = Returned (p, bs, None)) \<longleftrightarrow>
     resolves reg (Service c)"
proof (cases "GetDefaultPort reg (Service c)")
  case (Inl err)
  then show ?thesis by (simp add: getMappingForServiceConfig_def resolves_def)
next
  case (Inr dflt)
  consider "dflt < 0" | "65535 < dflt" | "0 \<le> dflt" and "dflt \<le> 65535" by linarith
  then show ?thesis
  proof cases
    case 1
    with Inr show ?thesis
      by (simp add: getMappingForServiceConfig_def resolves_def NewPort_Itoa_negative Let_def)
  next
    case 2
    with Inr show ?thesis
      by (simp add: getMappingForServiceConfig_def resolves_def NewPort_Itoa_large Let_def)
  next
    case 3
    with Inr show ?thesis
      by (simp add: getMappingForServiceConfig_def resolves_def NewPort_Itoa_ok Let_def)
  qed
qed

lemma getMappingForServiceConfig_shape:
  "getMappingForServiceConfig reg cfg = Returned (p, bs, e) \<Longrightarrow>
     (e = None \<longrightarrow> length bs = 1) \<and> (e \<noteq> None \<longrightarrow> p = ''nil'' \<and> bs = [])"
  by (auto simp: getMappingForServiceConfig_def Let_def split: option.splits sum.splits)

lemma getMappingForService_shape:
  "getMappingForService reg s = Returned (p, bs, e) \<Longrightarrow>
     (e = None \<longrightarrow> length bs = 1) \<and> (e \<noteq> None \<longrightarrow> p = ''nil'' \<and> bs = [])"
  by (auto simp: getMappingForService_def split: sum.splits)

lemma getMappingForService_returns: "getMappingForService reg s \<noteq> Panicked"
  by (simp add: getMappingForService_def split: sum.splits)

lemma getMappingForServiceConfig_returns:
  "\<exists>p bs e. getMappingForServiceConfig reg (Some c) = Returned (p, bs, e)"
  by (simp add: getMappingForServiceConfig_def Let_def split: sum.splits)

lemma getMappingForServiceConfig_lookup_fails:
  "GetDefaultPort reg (Service c) = Inl err \<Longrightarrow>
     getMappingForServiceConfig reg (Some c) = Returned (''nil'', [], Some err)"
  by (simp add: getMappingForServiceConfig_def)

lemma getMappingForService_lookup_fails:
  "GetDefaultPort reg s = Inl err \<Longrightarrow>
     getMappingForService reg s = Returned (''nil'', [], Some err)"
  by (simp add: getMappingForService_def)

text \<open>The table after a loop over selections that all resolve: later writes win.\<close>

lemma hostConfig_selected_resolves:
  "\<forall>c \<in> set cfgs. resolves reg (Service c) \<Longrightarrow>
     hostConfig_selected reg (map Some cfgs) m =
       Returned (Some \<lparr>PortBindings =
         m ++ map_of (rev (map (\<lambda>c. (internalPortOf reg (Service c),
                                      bindingOf (externalPortOf reg c))) cfgs))\<rparr>, None)"
proof (induction cfgs arbitrary: m)
  case Nil
  show ?case by simp
next
  case (Cons c cfgs)
  let ?kv = "\<lambda>c. (internalPortOf reg (Service c), bindingOf (externalPortOf reg c))"
  from Cons.prems have c: "resolves reg (Service c)"
    and rest: "\<forall>d \<in> set cfgs. resolves reg (Service d)" by simp_all
  have "hostConfig_selected reg (map Some (c # cfgs)) m =
          hostConfig_selected reg (map Some cfgs) (m(fst (?kv c) \<mapsto> snd (?kv c)))"
    by (simp add: getMappingForServiceConfig_resolves [OF c])
  also have "\<dots> = Returned (Some \<lparr>PortBindings =
          m(fst (?kv c) \<mapsto> snd (?kv c)) ++ map_of (rev (map ?kv cfgs))\<rparr>, None)"
    by (rule Cons.IH [OF rest])
  also have "m(fst (?kv c) \<mapsto> snd (?kv c)) ++ map_of (rev (map ?kv cfgs)) =
          m ++ map_of (rev (map ?kv (c # cfgs)))"
    by (rule ext) (simp add: map_add_def split: option.splits)
  finally show ?case .
qed

lemma hostConfig_supported_resolves:
  "\<forall>s \<in> set ss. resolves reg s \<Longrightarrow>
     hostConfig_supported reg ss m =
       Returned (Some \<lparr>PortBindings =
         m ++ map_of (rev (map (\<lambda>s. (internalPortOf reg s,
                                      bindingOf (defaultPort reg s))) ss))\<rparr>, None)"
proof (induction ss arbitrary: m)
  case Nil
  show ?case by simp
next
  case (Cons s ss)
  let ?kv = "\<lambda>s. (internalPortOf reg s, bindingOf (defaultPort reg s))"
  from Cons.prems have s: "resolves reg s"
    and rest: "\<forall>t \<in> set ss. resolves reg t" by simp_all
  have "hostConfig_supported reg (s # ss) m =
          hostConfig_supported reg ss (m(fst (?kv s) \<mapsto> snd (?kv s)))"
    by (simp add: getMappingForService_resolves [OF s])
  also have "\<dots> = Returned (Some \<lparr>PortBindings =
          m(fst (?kv s) \<mapsto> snd (?kv s)) ++ map_of (rev (map ?kv ss))\<rparr>, None)"
    by (rule Cons.IH [OF rest])
  also have "m(fst (?kv s) \<mapsto> snd (?kv s)) ++ map_of (rev (map ?kv ss)) =
          m ++ map_of (rev (map ?kv (s # ss)))"
    by (rule ext) (simp add: map_add_def split: option.splits)
  finally show ?case .
qed

text \<open>Each loop keeps every entry of the map at one binding.\<close>

lemma hostConfig_selected_single:
  "hostConfig_selected reg cfgs m = Returned (Some h, e) \<Longrightarrow>
     (\<And>q cs. m q = Some cs \<Longrightarrow> length cs = 1) \<Longrightarrow>
     PortBindings h p = Some bs \<Longrightarrow> length bs = 1"
proof (induction cfgs arbitrary: m)
  case Nil
  then show ?case by auto
next
  case (Cons c cfgs)
  show ?case
  proof (cases "getMappingForServiceConfig reg c")
    case Panicked
    with Cons.prems(1) show ?thesis by simp
  next
    case (Returned r)
    obtain ip b err where r: "r = (ip, b, err)" by (cases r) auto
    show ?thesis
    proof (cases err)
      case (Some x)
      with Cons.prems(1) Returned r show ?thesis by simp
    next
      case None
      with Returned r getMappingForServiceConfig_shape [of reg c ip b err]
      have b: "length b = 1" by simp
      from Cons.prems(1) Returned r None
      have run: "hostConfig_selected reg cfgs (m(ip \<mapsto> b)) = Returned (Some h, e)" by simp
      show ?thesis
      proof (rule Cons.IH [OF run _ Cons.prems(3)])
        fix q cs
        assume "(m(ip \<mapsto> b)) q = Some cs"
        with b Cons.prems(2) show "length cs = 1" by (auto split: if_splits)
      qed
    qed
  qed
qed

lemma hostConfig_supported_single:
  "hostConfig_supported reg ss m = Returned (Some h, e) \<Longrightarrow>
     (\<And>q cs. m q = Some cs \<Longrightarrow> length cs = 1) \<Longrightarrow>
     PortBindings h p = Some bs \<Longrightarrow> length bs = 1"
proof (induction ss arbitrary: m)
  case Nil
  then show ?case by auto
next
  case (Cons s ss)
  show ?case
  proof (cases "getMappingForService reg s")
    case Panicked
    with Cons.prems(1) show ?thesis by simp
  next
    case (Returned r)
    obtain ip b err where r: "r = (ip, b, err)" by (cases r) auto
    show ?thesis
    proof (cases err)
      case (Some x)
      with Cons.prems(1) Returned r show ?thesis by simp
    next
      case None
      with Returned r getMappingForService_shape [of reg s ip b err]
      have b: "length b = 1" by simp
      from Cons.prems(1) Returned r None
      have run: "hostConfig_supported reg ss (m(ip \<mapsto> b)) = Returned (Some h, e)" by simp
      show ?thesis
      proof (rule Cons.IH [OF run _ Cons.prems(3)])
        fix q cs
        assume "(m(ip \<mapsto> b)) q = Some cs"
        with b Cons.prems(2) show "length cs = 1" by (auto split: if_splits)
      qed
    qed
  qed
qed

text \<open>The names collected by the composer's loop, when no selection is nil.\<close>

lemma containerConfig_names_Some:
  "containerConfig_names reg (map Some sels) names =
     Returned (names @ map (\<lambda>c. String reg (Service c)) sels)"
  by (induction sels arbitrary: names) simp_all

text \<open>Services with different default ports have different keys in the table.\<close>

lemma internalPortOf_inj:
  assumes "resolves reg s" and "resolves reg t"
    and "internalPortOf reg s = internalPortOf reg t"
  shows "defaultPort reg s = defaultPort reg t"
proof -
  from assms(1) have s: "0 \<le> defaultPort reg s" by (simp add: resolves_cases)
  from assms(2) have t: "0 \<le> defaultPort reg t" by (simp add: resolves_cases)
  from assms(3) have "Itoa (defaultPort reg s) = Itoa (defaultPort reg t)"
    by (simp add: internalPortOf_def)
  with s t show ?thesis by (rule Itoa_inj)
qed

text \<open>The first selection that fails ends the loop with its error and no table.\<close>

lemma hostConfig_selected_first_failure:
  assumes "\<forall>x \<in> set xs. resolves reg (Service x)"
    and "getMappingForServiceConfig reg (Some c) = Returned (p, bs, Some err)"
  shows "hostConfig_selected reg (map Some (xs @ c # ys)) m = Returned (None, Some err)"
  using assms(1)
proof (induction xs arbitrary: m)
  case Nil
  show ?case by (simp add: assms(2))
next
  case (Cons x xs)
  then show ?case by (simp add: getMappingForServiceConfig_resolves)
qed

lemma hostConfig_selected_some_failure:
  assumes "d \<in> set sels"
    and "getMappingForServiceConfig reg (Some d) = Returned (p, bs, Some err)"
  shows "\<exists>d' e. d' \<in> set sels
           \<and> getMappingForServiceConfig reg (Some d') = Returned (''nil'', [], Some e)
           \<and> hostConfig_selected reg (map Some sels) m = Returned (None, Some e)"
  using assms(1)
proof (induction sels arbitrary: m)
  case Nil
  then show ?case by simp
next
  case (Cons c sels)
  obtain q cs e where r: "getMappingForServiceConfig reg (Some c) = Returned (q, cs, e)"
    using getMappingForServiceConfig_returns [of reg c] by auto
  show ?case
  proof (cases e)
    case (Some e')
    with r getMappingForServiceConfig_shape [OF r]
    have "getMappingForServiceConfig reg (Some c) = Returned (''nil'', [], Some e')" by simp
    then show ?thesis by (intro exI [of _ c] exI [of _ e']) simp
  next
    case None
    with r assms(2) have "d \<noteq> c" by auto
    with Cons.prems have "d \<in> set sels" by simp
    from Cons.IH [OF this, of "m(q \<mapsto> cs)"] obtain d' e'
      where "d' \<in> set sels"
        and "getMappingForServiceConfig reg (Some d') = Returned (''nil'', [], Some e')"
        and "hostConfig_selected reg (map Some sels) (m(q \<mapsto> cs)) = Returned (None, Some e')"
      by blast
    with r None show ?thesis by (intro exI [of _ d'] exI [of _ e']) simp
  qed
qed

lemma getMappingForService_returned:
  "\<exists>p bs e. getMappingForService reg s = Returned (p, bs, e)"
  by (simp add: getMappingForService_def split: sum.splits)

lemma hostConfig_supported_some_failure:
  assumes "t \<in> set ss"
    and "getMappingForService reg t = Returned (p, bs, Some err)"
  shows "\<exists>t' e. t' \<in> set ss
           \<and> getMappingForService reg t' = Returned (''nil'', [], Some e)
           \<and> hostConfig_supported reg ss m = Returned (None, Some e)"
  using assms(1)
proof (induction ss arbitrary: m)
  case Nil
  then show ?case by simp
next
  case (Cons s ss)
  obtain q cs e where r: "getMappingForService reg s = Returned (q, cs, e)"
    using getMappingForService_returned [of reg s] by auto
  show ?case
  proof (cases e)
    case (Some e')
    with r getMappingForService_shape [OF r]
    have "getMappingForService reg s = Returned (''nil'', [], Some e')" by simp
    then show ?thesis by (intro exI [of _ s] exI [of _ e']) simp
  next
    case None
    with r assms(2) have "t \<noteq> s" by auto
    with Cons.prems have "t \<in> set ss" by simp
    from Cons.IH [OF this, of "m(q \<mapsto> cs)"] obtain t' e'
      where "t' \<in> set ss"
        and "getMappingForService reg t' = Returned (''nil'', [], Some e')"
        and "hostConfig_supported reg ss (m(q \<mapsto> cs)) = Returned (None, Some e')"
      by blast
    with r None show ?thesis by (intro exI [of _ t'] exI [of _ e']) simp
  qed
qed

section \<open>Properties of the resolver and of the composer\<close>

text \<open>
  C1. Resolving a selection succeeds exactly when the registry knows a default port for
  its service and that default is a TCP port number. The resolved binding then has the
  default port (with protocol tcp) as its internal port; its external port is the
  selection's port when that is positive, and the default port when it is zero (an
  absent override is Go's zero value) or negative.
\<close>

theorem getMappingForServiceConfig_ports:
  "getMappingForServiceConfig reg (Some c) = Returned (p, bs, None) \<longleftrightarrow>
     (\<exists>dflt. GetDefaultPort reg (Service c) = Inr dflt \<and> 0 \<le> dflt \<and> dflt \<le> 65535
        \<and> p = Itoa dflt @ ''/tcp''
        \<and> bs = [\<lparr>HostIP = ''0.0.0.0'',
                  HostPort = Itoa (if 0 < Port c then Port c else dflt)\<rparr>])"
proof (cases "GetDefaultPort reg (Service c)")
  case (Inl err)
  then show ?thesis by (simp add: getMappingForServiceConfig_def)
next
  case (Inr dflt)
  consider "dflt < 0" | "65535 < dflt" | "0 \<le> dflt" and "dflt \<le> 65535" by linarith
  then show ?thesis
  proof cases
    case 1
    with Inr show ?thesis
      by (simp add: getMappingForServiceConfig_def NewPort_Itoa_negative Let_def)
  next
    case 2
    with Inr show ?thesis
      by (simp add: getMappingForServiceConfig_def NewPort_Itoa_large Let_def)
  next
    case 3
    with Inr show ?thesis
      by (auto simp: getMappingForServiceConfig_def NewPort_Itoa_ok not_less Let_def)
  qed
qed

theorem getMappingForServiceConfig_ports_witness:
  "getMappingForServiceConfig sample_registry (Some \<lparr>Service = S3, Port = 9000\<rparr>) =
       Returned (''4572/tcp'', [\<lparr>HostIP = ''0.0.0.0'', HostPort = ''9000''\<rparr>], None)
   \<and> getMappingForServiceConfig sample_registry (Some \<lparr>Service = SNS, Port = 0\<rparr>) =
       Returned (''4575/tcp'', [\<lparr>HostIP = ''0.0.0.0'', HostPort = ''4575''\<rparr>], None)
   \<and> getMappingForServiceConfig sample_registry (Some \<lparr>Service = SQS, Port = - 1\<rparr>) =
       Returned (''4576/tcp'', [\<lparr>HostIP = ''0.0.0.0'', HostPort = ''4576''\<rparr>], None)
   \<and> getMappingForServiceConfig sample_registry (Some \<lparr>Service = Unlisted, Port = 80\<rparr>) \<noteq>
       Returned (''80/tcp'', [\<lparr>HostIP = ''0.0.0.0'', HostPort = ''80''\<rparr>], None)"
  using getMappingForServiceConfig_ports
          [of sample_registry "\<lparr>Service = S3, Port = 9000\<rparr>" "''4572/tcp''"
              "[\<lparr>HostIP = ''0.0.0.0'', HostPort = ''9000''\<rparr>]"]
        getMappingForServiceConfig_ports
          [of sample_registry "\<lparr>Service = SNS, Port = 0\<rparr>" "''4575/tcp''"
              "[\<lparr>HostIP = ''0.0.0.0'', HostPort = ''4575''\<rparr>]"]
        getMappingForServiceConfig_ports
          [of sample_registry "\<lparr>Service = SQS, Port = - 1\<rparr>" "''4576/tcp''"
              "[\<lparr>HostIP = ''0.0.0.0'', HostPort = ''4576''\<rparr>]"]
        getMappingForServiceConfig_ports
          [of sample_registry "\<lparr>Service = Unlisted, Port = 80\<rparr>" "''80/tcp''"
              "[\<lparr>HostIP = ''0.0.0.0'', HostPort = ''80''\<rparr>]"]
  by (simp add: sample_registry_def run_library)

text \<open>
  C8. Whatever the selections, every entry of a table that the resolver returns holds
  exactly one binding.
\<close>

theorem hostConfig_single_binding:
  assumes "hostConfig reg cfgs = Returned (Some h, e)" and "PortBindings h p = Some bs"
  shows "length bs = 1"
proof (cases "length cfgs > 0")
  case True
  with assms(1) have "hostConfig_selected reg cfgs Map.empty = Returned (Some h, e)"
    by (simp add: hostConfig_def)
  from hostConfig_selected_single [OF this _ assms(2)] show ?thesis by simp
next
  case False
  with assms(1)
  have "hostConfig_supported reg (SupportedServices reg) Map.empty = Returned (Some h, e)"
    by (simp add: hostConfig_def)
  from hostConfig_supported_single [OF this _ assms(2)] show ?thesis by simp
qed

theorem hostConfig_single_binding_witness:
  "hostConfig sample_registry [Some \<lparr>Service = S3, Port = 9000\<rparr>] =
     Returned (Some \<lparr>PortBindings =
       [''4572/tcp'' \<mapsto> [\<lparr>HostIP = ''0.0.0.0'', HostPort = ''9000''\<rparr>]]\<rparr>, None)
   \<and> PortBindings \<lparr>PortBindings =
       [''4572/tcp'' \<mapsto> [\<lparr>HostIP = ''0.0.0.0'', HostPort = ''9000''\<rparr>]]\<rparr> ''4572/tcp'' =
     Some [\<lparr>HostIP = ''0.0.0.0'', HostPort = ''9000''\<rparr>]
   \<and> length [\<lparr>HostIP = ''0.0.0.0'', HostPort = ''9000''\<rparr>] = 1"
proof -
  have run: "hostConfig sample_registry [Some \<lparr>Service = S3, Port = 9000\<rparr>] =
     Returned (Some \<lparr>PortBindings =
       [''4572/tcp'' \<mapsto> [\<lparr>HostIP = ''0.0.0.0'', HostPort = ''9000''\<rparr>]]\<rparr>, None)"
    by (simp add: hostConfig_def getMappingForServiceConfig_def sample_registry_def
        run_library)
  have entry: "PortBindings \<lparr>PortBindings =
       [''4572/tcp'' \<mapsto> [\<lparr>HostIP = ''0.0.0.0'', HostPort = ''9000''\<rparr>]]\<rparr> ''4572/tcp'' =
     Some [\<lparr>HostIP = ''0.0.0.0'', HostPort = ''9000''\<rparr>]"
    by simp
  from hostConfig_single_binding [OF run entry] run entry show ?thesis by simp
qed

text \<open>
  C4. For the empty list of selections the environment of the container configuration
  is empty. For a non-empty list it is exactly one entry: \<^verbatim>\<open>SERVICES=\<close> followed by
  the lower-casing of the service names joined by commas in the order of the list. When
  the names of the selected services are ASCII, as the names of identifiers are, that
  entry is \<^verbatim>\<open>SERVICES=\<close> followed by the lower-cased names joined by commas in the order
  of the list.
\<close>

theorem containerConfig_env:
  "containerConfig mapUnicode reg img [] = Returned \<lparr>Image = img, Env = []\<rparr>
   \<and> (sels \<noteq> [] \<longrightarrow>
        containerConfig mapUnicode reg img (map Some sels) =
          Returned \<lparr>Image = img,
                    Env = [''SERVICES='' @
                           ToLower mapUnicode
                             (Join (map (\<lambda>c. String reg (Service c)) sels) '','')]\<rparr>)
   \<and> (sels \<noteq> [] \<and> (\<forall>c \<in> set sels. isASCII (String reg (Service c))) \<longrightarrow>
        containerConfig mapUnicode reg img (map Some sels) =
          Returned \<lparr>Image = img,
                    Env = [''SERVICES='' @
                           Join (map (\<lambda>c. ToLower mapUnicode (String reg (Service c))) sels)
                             '','']\<rparr>)"
proof (intro conjI impI)
  show "containerConfig mapUnicode reg img [] = Returned \<lparr>Image = img, Env = []\<rparr>"
    by (simp add: containerConfig_def)
next
  assume "sels \<noteq> []"
  then show "containerConfig mapUnicode reg img (map Some sels) =
          Returned \<lparr>Image = img,
                    Env = [''SERVICES='' @
                           ToLower mapUnicode
                             (Join (map (\<lambda>c. String reg (Service c)) sels) '','')]\<rparr>"
    by (simp add: containerConfig_def containerConfig_names_Some)
next
  assume a: "sels \<noteq> [] \<and> (\<forall>c \<in> set sels. isASCII (String reg (Service c)))"
  then have "\<forall>n \<in> set (map (\<lambda>c. String reg (Service c)) sels). isASCII n" by simp
  from ToLower_Join [OF this, of mapUnicode] a
  show "containerConfig mapUnicode reg img (map Some sels) =
          Returned \<lparr>Image = img,
                    Env = [''SERVICES='' @
                           Join (map (\<lambda>c. ToLower mapUnicode (String reg (Service c))) sels)
                             '','']\<rparr>"
    by (simp add: containerConfig_def containerConfig_names_Some comp_def)
qed

theorem containerConfig_env_witness:
  "[\<lparr>Service = S3, Port = 9000\<rparr>, \<lparr>Service = SNS, Port = 0\<rparr>] \<noteq> []
   \<and> isASCII (String sample_registry S3) \<and> isASCII (String sample_registry SNS)
   \<and> containerConfig (\<lambda>s. ''?'') sample_registry ImageName
        (map Some [\<lparr>Service = S3, Port = 9000\<rparr>, \<lparr>Service = SNS, Port = 0\<rparr>]) =
      Returned \<lparr>Image = ImageName, Env = [''SERVICES=s3,sns'']\<rparr>
   \<and> containerConfig (\<lambda>s. ''?'') sample_registry ImageName [] =
      Returned \<lparr>Image = ImageName, Env = []\<rparr>
   \<and> containerConfig (\<lambda>s. [CHR 0xC3, CHR 0xA9, CHR ''s'', CHR ''3''])
        (sample_registry\<lparr>String := \<lambda>s. [CHR 0xC3, CHR 0x89, CHR ''S'', CHR ''3'']\<rparr>)
        ImageName (map Some [\<lparr>Service = S3, Port = 0\<rparr>]) =
      Returned \<lparr>Image = ImageName,
                Env = [''SERVICES='' @ [CHR 0xC3, CHR 0xA9, CHR ''s'', CHR ''3'']]\<rparr>"
  using containerConfig_env
          [of "\<lambda>s. ''?''" sample_registry ImageName
              "[\<lparr>Service = S3, Port = 9000\<rparr>, \<lparr>Service = SNS, Port = 0\<rparr>]"]
        containerConfig_env
          [of "\<lambda>s. [CHR 0xC3, CHR 0xA9, CHR ''s'', CHR ''3'']"
              "sample_registry\<lparr>String := \<lambda>s. [CHR 0xC3, CHR 0x89, CHR ''S'', CHR ''3'']\<rparr>"
              ImageName "[\<lparr>Service = S3, Port = 0\<rparr>]"]
  by (simp add: sample_registry_def run_library)

text \<open>
  C3. When the lookup of a default port fails for a selection of the list, the resolver
  returns an error and a nil host configuration, whatever had been entered in the map
  before: the error is the one that resolving some selection of the list gives, and it
  is the error of the lookup itself when every selection before the failing one
  resolves. The same holds for the empty list, where the supported services are looked
  up.
\<close>

theorem hostConfig_aborts_on_lookup_failure:
  "(c \<in> set sels \<and> GetDefaultPort reg (Service c) = Inl err \<longrightarrow>
      (\<exists>d e. d \<in> set sels
         \<and> getMappingForServiceConfig reg (Some d) = Returned (''nil'', [], Some e)
         \<and> hostConfig reg (map Some sels) = Returned (None, Some e)))
   \<and> ((\<forall>x \<in> set xs. resolves reg (Service x)) \<and> GetDefaultPort reg (Service c) = Inl err \<longrightarrow>
        hostConfig reg (map Some (xs @ c # ys)) = Returned (None, Some err))
   \<and> (s \<in> set (SupportedServices reg) \<and> GetDefaultPort reg s = Inl err \<longrightarrow>
        (\<exists>t e. t \<in> set (SupportedServices reg)
           \<and> getMappingForService reg t = Returned (''nil'', [], Some e)
           \<and> hostConfig reg [] = Returned (None, Some e)))"
proof (intro conjI impI)
  assume a: "c \<in> set sels \<and> GetDefaultPort reg (Service c) = Inl err"
  then have ne: "sels \<noteq> []" by auto
  from a have "getMappingForServiceConfig reg (Some c) = Returned (''nil'', [], Some err)"
    by (simp add: getMappingForServiceConfig_lookup_fails)
  from hostConfig_selected_some_failure [OF _ this, of sels Map.empty] a ne
  show "\<exists>d e. d \<in> set sels
         \<and> getMappingForServiceConfig reg (Some d) = Returned (''nil'', [], Some e)
         \<and> hostConfig reg (map Some sels) = Returned (None, Some e)"
    by (simp add: hostConfig_def)
next
  assume a: "(\<forall>x \<in> set xs. resolves reg (Service x)) \<and> GetDefaultPort reg (Service c) = Inl err"
  then have "getMappingForServiceConfig reg (Some c) = Returned (''nil'', [], Some err)"
    by (simp add: getMappingForServiceConfig_lookup_fails)
  from hostConfig_selected_first_failure [OF _ this, of xs ys Map.empty] a
  show "hostConfig reg (map Some (xs @ c # ys)) = Returned (None, Some err)"
    by (simp add: hostConfig_def)
next
  assume a: "s \<in> set (SupportedServices reg) \<and> GetDefaultPort reg s = Inl err"
  then have "getMappingForService reg s = Returned (''nil'', [], Some err)"
    by (simp add: getMappingForService_lookup_fails)
  from hostConfig_supported_some_failure [OF _ this, of "SupportedServices reg" Map.empty] a
  show "\<exists>t e. t \<in> set (SupportedServices reg)
           \<and> getMappingForService reg t = Returned (''nil'', [], Some e)
           \<and> hostConfig reg [] = Returned (None, Some e)"
    by (simp add: hostConfig_def)
qed

theorem hostConfig_aborts_on_lookup_failure_witness:
  "\<lparr>Service = Unlisted, Port = 0\<rparr> \<in>
      set [\<lparr>Service = S3, Port = 9000\<rparr>, \<lparr>Service = Unlisted, Port = 0\<rparr>,
           \<lparr>Service = SNS, Port = 0\<rparr>]
   \<and> GetDefaultPort sample_registry Unlisted = Inl (ErrOther ''unsupported service'')
   \<and> resolves sample_registry S3
   \<and> hostConfig sample_registry
        (map Some ([\<lparr>Service = S3, Port = 9000\<rparr>] @ \<lparr>Service = Unlisted, Port = 0\<rparr> #
                   [\<lparr>Service = SNS, Port = 0\<rparr>])) =
      Returned (None, Some (ErrOther ''unsupported service''))
   \<and> Unlisted \<in> set (SupportedServices (sample_registry\<lparr>SupportedServices := [S3, Unlisted]\<rparr>))
   \<and> hostConfig (sample_registry\<lparr>SupportedServices := [S3, Unlisted]\<rparr>) [] =
      Returned (None, Some (ErrOther ''unsupported service''))"
  using hostConfig_aborts_on_lookup_failure
          [where reg = sample_registry and c = "\<lparr>Service = Unlisted, Port = 0\<rparr>"
             and sels = "[\<lparr>Service = S3, Port = 9000\<rparr>, \<lparr>Service = Unlisted, Port = 0\<rparr>,
                          \<lparr>Service = SNS, Port = 0\<rparr>]"
             and xs = "[\<lparr>Service = S3, Port = 9000\<rparr>]"
             and ys = "[\<lparr>Service = SNS, Port = 0\<rparr>]"
             and err = "ErrOther ''unsupported service''" and s = S3]
        hostConfig_aborts_on_lookup_failure
          [where reg = "sample_registry\<lparr>SupportedServices := [S3, Unlisted]\<rparr>"
             and c = "\<lparr>Service = Unlisted, Port = 0\<rparr>" and sels = "[]" and xs = "[]"
             and ys = "[]" and err = "ErrOther ''unsupported service''" and s = Unlisted]
  by (simp add: sample_registry_def resolves_def hostConfig_def getMappingForServiceConfig_def
      getMappingForService_def run_library)

text \<open>
  C2. When every supported service resolves and no two of them share a default port,
  the table for the empty list of selections has exactly one entry for each supported
  service: the keys of the table correspond one to one to the supported services, and
  the entry of a service binds its default port (the key, with protocol tcp) to the same
  port on the address 0.0.0.0.
\<close>

theorem hostConfig_empty_all_supported:
  assumes "\<forall>s \<in> set (SupportedServices reg). resolves reg s"
    and "inj_on (defaultPort reg) (set (SupportedServices reg))"
  shows "\<exists>h. hostConfig reg [] = Returned (Some h, None)
           \<and> bij_betw (internalPortOf reg) (set (SupportedServices reg)) (dom (PortBindings h))
           \<and> (\<forall>s \<in> set (SupportedServices reg).
                 internalPortOf reg s = Itoa (defaultPort reg s) @ ''/tcp''
                 \<and> PortBindings h (internalPortOf reg s) =
                     Some [\<lparr>HostIP = ''0.0.0.0'', HostPort = Itoa (defaultPort reg s)\<rparr>])"
proof -
  let ?ss = "SupportedServices reg"
  let ?kvs = "map (\<lambda>s. (internalPortOf reg s, bindingOf (defaultPort reg s))) ?ss"
  let ?h = "\<lparr>PortBindings = map_of (rev ?kvs)\<rparr>"
  have run: "hostConfig reg [] = Returned (Some ?h, None)"
    using hostConfig_supported_resolves [OF assms(1), of Map.empty]
    by (simp add: hostConfig_def)
  have inj: "inj_on (internalPortOf reg) (set ?ss)"
  proof (rule inj_onI)
    fix s t
    assume s: "s \<in> set ?ss" and t: "t \<in> set ?ss"
      and e: "internalPortOf reg s = internalPortOf reg t"
    from s t assms(1) have "resolves reg s" "resolves reg t" by simp_all
    from internalPortOf_inj [OF this e] have "defaultPort reg s = defaultPort reg t" .
    with assms(2) s t show "s = t" by (auto dest: inj_onD)
  qed
  have dom: "dom (PortBindings ?h) = internalPortOf reg ` set ?ss"
    by (simp add: dom_map_of_conv_image_fst image_image)
  have entry: "PortBindings ?h (internalPortOf reg s) = Some (bindingOf (defaultPort reg s))"
    if s: "s \<in> set ?ss" for s
  proof -
    from s dom have "internalPortOf reg s \<in> dom (PortBindings ?h)" by blast
    then obtain v where v: "map_of (rev ?kvs) (internalPortOf reg s) = Some v" by auto
    from map_of_SomeD [OF v] obtain t where t: "t \<in> set ?ss"
      and k: "internalPortOf reg t = internalPortOf reg s"
      and b: "v = bindingOf (defaultPort reg t)" by auto
    from inj t s k have "t = s" by (auto dest: inj_onD)
    with v b show ?thesis by simp
  qed
  have "bij_betw (internalPortOf reg) (set ?ss) (dom (PortBindings ?h))"
    using inj dom by (simp add: bij_betw_def)
  with run entry show ?thesis
    by (intro exI [of _ ?h]) (simp add: internalPortOf_def bindingOf_def)
qed

theorem hostConfig_empty_all_supported_witness:
  "resolves sample_registry S3 \<and> resolves sample_registry SNS \<and> resolves sample_registry SQS
   \<and> distinct (map (defaultPort sample_registry) (SupportedServices sample_registry))
   \<and> (\<exists>h. hostConfig sample_registry [] = Returned (Some h, None)
          \<and> dom (PortBindings h) = {''4572/tcp'', ''4575/tcp'', ''4576/tcp''}
          \<and> PortBindings h ''4572/tcp'' = Some [\<lparr>HostIP = ''0.0.0.0'', HostPort = ''4572''\<rparr>]
          \<and> PortBindings h ''4575/tcp'' = Some [\<lparr>HostIP = ''0.0.0.0'', HostPort = ''4575''\<rparr>]
          \<and> PortBindings h ''4576/tcp'' = Some [\<lparr>HostIP = ''0.0.0.0'', HostPort = ''4576''\<rparr>])"
proof -
  have r: "\<forall>s \<in> set (SupportedServices sample_registry). resolves sample_registry s"
    by (simp add: sample_registry_def resolves_def)
  have i: "inj_on (defaultPort sample_registry) (set (SupportedServices sample_registry))"
    by (simp add: sample_registry_def defaultPort_def)
  have k: "internalPortOf sample_registry S3 = ''4572/tcp''"
    "internalPortOf sample_registry SNS = ''4575/tcp''"
    "internalPortOf sample_registry SQS = ''4576/tcp''"
    by (simp_all add: internalPortOf_def defaultPort_def sample_registry_def run_library)
  have d: "Itoa (defaultPort sample_registry S3) = ''4572''"
    "Itoa (defaultPort sample_registry SNS) = ''4575''"
    "Itoa (defaultPort sample_registry SQS) = ''4576''"
    by (simp_all add: defaultPort_def sample_registry_def run_library)
  have s: "SupportedServices sample_registry = [S3, SNS, SQS]"
    by (simp add: sample_registry_def)
  from hostConfig_empty_all_supported [OF r i] obtain h
    where run: "hostConfig sample_registry [] = Returned (Some h, None)"
      and b: "bij_betw (internalPortOf sample_registry)
                (set (SupportedServices sample_registry)) (dom (PortBindings h))"
      and e: "\<forall>s \<in> set (SupportedServices sample_registry).
                PortBindings h (internalPortOf sample_registry s) =
                  Some [\<lparr>HostIP = ''0.0.0.0'', HostPort = Itoa (defaultPort sample_registry s)\<rparr>]"
    by blast
  from b have "dom (PortBindings h) = {''4572/tcp'', ''4575/tcp'', ''4576/tcp''}"
    by (simp add: bij_betw_def s k)
  moreover from e
  have "PortBindings h ''4572/tcp'' = Some [\<lparr>HostIP = ''0.0.0.0'', HostPort = ''4572''\<rparr>]"
    "PortBindings h ''4575/tcp'' = Some [\<lparr>HostIP = ''0.0.0.0'', HostPort = ''4575''\<rparr>]"
    "PortBindings h ''4576/tcp'' = Some [\<lparr>HostIP = ''0.0.0.0'', HostPort = ''4576''\<rparr>]"
    by (simp_all add: s k d)
  moreover have "resolves sample_registry S3" "resolves sample_registry SNS"
    "resolves sample_registry SQS"
    using r by (simp_all add: s)
  moreover have "distinct (map (defaultPort sample_registry) (SupportedServices sample_registry))"
    by (simp add: sample_registry_def defaultPort_def)
  ultimately show ?thesis using run by blast
qed

text \<open>
  C5. In a list whose selections all resolve, over services with distinct default ports,
  the entry of a service is the binding of its last selection: the selections made for
  the same service earlier in the list leave no trace, and the resolver returns the
  table without an error.
\<close>

theorem hostConfig_last_selection_wins:
  assumes "\<forall>x \<in> set (xs @ c # ys). resolves reg (Service x)"
    and "inj_on (defaultPort reg) (Service ` set (xs @ c # ys))"
    and "\<forall>y \<in> set ys. Service y \<noteq> Service c"
  shows "\<exists>h. hostConfig reg (map Some (xs @ c # ys)) = Returned (Some h, None)
           \<and> PortBindings h (internalPortOf reg (Service c)) =
               Some [\<lparr>HostIP = ''0.0.0.0'', HostPort = Itoa (externalPortOf reg c)\<rparr>]"
proof -
  let ?kv = "\<lambda>c. (internalPortOf reg (Service c), bindingOf (externalPortOf reg c))"
  let ?h = "\<lparr>PortBindings = map_of (rev (map ?kv (xs @ c # ys)))\<rparr>"
  have run: "hostConfig reg (map Some (xs @ c # ys)) = Returned (Some ?h, None)"
    using hostConfig_selected_resolves [OF assms(1), of Map.empty]
    by (simp add: hostConfig_def)
  have later: "internalPortOf reg (Service y) \<noteq> internalPortOf reg (Service c)"
    if y: "y \<in> set ys" for y
  proof
    assume e: "internalPortOf reg (Service y) = internalPortOf reg (Service c)"
    from y assms(1) have "resolves reg (Service y)" "resolves reg (Service c)" by simp_all
    from internalPortOf_inj [OF this e]
    have d: "defaultPort reg (Service y) = defaultPort reg (Service c)" .
    from y have my: "Service y \<in> Service ` set (xs @ c # ys)"
      and mc: "Service c \<in> Service ` set (xs @ c # ys)" by simp_all
    from inj_onD [OF assms(2) d my mc] have "Service y = Service c" .
    with y assms(3) show False by simp
  qed
  have "internalPortOf reg (Service c) \<notin> fst ` set (rev (map ?kv ys))"
  proof
    assume "internalPortOf reg (Service c) \<in> fst ` set (rev (map ?kv ys))"
    then obtain y where "y \<in> set ys"
      and "internalPortOf reg (Service y) = internalPortOf reg (Service c)" by auto
    with later show False by blast
  qed
  then have "map_of (rev (map ?kv ys)) (internalPortOf reg (Service c)) = None"
    by (rule map_of_eq_None_iff [THEN iffD2])
  then have "PortBindings ?h (internalPortOf reg (Service c)) =
               Some (bindingOf (externalPortOf reg c))"
    by (simp add: map_add_def)
  with run show ?thesis
    by (intro exI [of _ ?h]) (simp add: bindingOf_def)
qed

theorem hostConfig_last_selection_wins_witness:
  "resolves sample_registry S3 \<and> resolves sample_registry SNS \<and> resolves sample_registry SQS
   \<and> Service \<lparr>Service = SQS, Port = 0\<rparr> \<noteq> Service \<lparr>Service = S3, Port = 9001\<rparr>
   \<and> (\<exists>h. hostConfig sample_registry
             (map Some ([\<lparr>Service = S3, Port = 9000\<rparr>, \<lparr>Service = SNS, Port = 0\<rparr>] @
                        \<lparr>Service = S3, Port = 9001\<rparr> # [\<lparr>Service = SQS, Port = 0\<rparr>])) =
           Returned (Some h, None)
          \<and> PortBindings h ''4572/tcp'' = Some [\<lparr>HostIP = ''0.0.0.0'', HostPort = ''9001''\<rparr>])"
proof -
  let ?xs = "[\<lparr>Service = S3, Port = 9000\<rparr>, \<lparr>Service = SNS, Port = 0\<rparr>]"
  let ?c = "\<lparr>Service = S3, Port = 9001\<rparr>"
  let ?ys = "[\<lparr>Service = SQS, Port = 0\<rparr>]"
  have r: "resolves sample_registry S3" "resolves sample_registry SNS"
    "resolves sample_registry SQS"
    by (simp_all add: sample_registry_def resolves_def)
  then have a1: "\<forall>x \<in> set (?xs @ ?c # ?ys). resolves sample_registry (Service x)" by simp
  have a2: "inj_on (defaultPort sample_registry) (Service ` set (?xs @ ?c # ?ys))"
    by (auto simp: inj_on_def sample_registry_def defaultPort_def)
  have a3: "\<forall>y \<in> set ?ys. Service y \<noteq> Service ?c" by simp
  have k: "internalPortOf sample_registry S3 = ''4572/tcp''"
    by (simp add: internalPortOf_def defaultPort_def sample_registry_def run_library)
  have e: "Itoa (externalPortOf sample_registry ?c) = ''9001''"
    by (simp add: externalPortOf_def run_library)
  from hostConfig_last_selection_wins [OF a1 a2 a3] r show ?thesis
    by (simp add: k e)
qed

section \<open>Facts about the lifecycle manager\<close>

lemma getMappingForServiceConfig_Panicked:
  "getMappingForServiceConfig reg c = Panicked \<Longrightarrow> c = None"
  by (simp add: getMappingForServiceConfig_def Let_def split: option.splits sum.splits)

lemma hostConfig_selected_pair:
  "hostConfig_selected reg cfgs m = Returned (h, e) \<Longrightarrow> (h = None) = (e \<noteq> None)"
  by (induction cfgs arbitrary: m)
     (auto split: outcome.splits prod.splits option.splits)

lemma hostConfig_supported_pair:
  "hostConfig_supported reg ss m = Returned (h, e) \<Longrightarrow> (h = None) = (e \<noteq> None)"
  by (induction ss arbitrary: m)
     (auto split: outcome.splits prod.splits option.splits)

lemma hostConfig_selected_Panicked:
  "hostConfig_selected reg cfgs m = Panicked \<Longrightarrow> None \<in> set cfgs"
  by (induction cfgs arbitrary: m)
     (auto split: outcome.splits prod.splits option.splits
           dest: getMappingForServiceConfig_Panicked)

lemma hostConfig_supported_returns: "hostConfig_supported reg ss m \<noteq> Panicked"
  by (induction ss arbitrary: m)
     (auto simp: getMappingForService_returns split: outcome.splits prod.splits option.splits)

lemma hostConfig_pair:
  "hostConfig reg cfgs = Returned (h, e) \<Longrightarrow> (h = None) = (e \<noteq> None)"
  by (auto simp: hostConfig_def split: if_splits
           dest: hostConfig_selected_pair hostConfig_supported_pair)

lemma hostConfig_Panicked: "hostConfig reg cfgs = Panicked \<Longrightarrow> None \<in> set cfgs"
  by (auto simp: hostConfig_def hostConfig_supported_returns split: if_splits
           dest: hostConfig_selected_Panicked)

lemma containerConfig_names_Panicked:
  "containerConfig_names reg cfgs names = Panicked \<Longrightarrow> None \<in> set cfgs"
  by (induction cfgs arbitrary: names) (auto split: option.splits)

lemma containerConfig_Panicked:
  "containerConfig mapUnicode reg img cfgs = Panicked \<Longrightarrow> None \<in> set cfgs"
  by (auto simp: containerConfig_def split: if_splits outcome.splits
           dest: containerConfig_names_Panicked)

lemma containerConfig_Some:
  "\<exists>ccfg. containerConfig mapUnicode reg img (map Some sels) = Returned ccfg"
  by (simp add: containerConfig_def containerConfig_names_Some)

lemma New_pair:
  "fst (New rt reg cfgs tr) = Returned (h, e) \<Longrightarrow> (h = None) = (e \<noteq> None)"
  by (auto simp: New_def Let_def
           split: sum.splits prod.splits option.splits outcome.splits)

lemma New_Panicked: "fst (New rt reg cfgs tr) = Panicked \<Longrightarrow> None \<in> set cfgs"
  by (auto simp: New_def Let_def
           split: sum.splits prod.splits option.splits outcome.splits
           dest: containerConfig_Panicked hostConfig_Panicked hostConfig_pair)

section \<open>Properties of the lifecycle manager\<close>

text \<open>
  C10. The client handed to \<^verbatim>\<open>pullImage\<close> has no influence on what it does: with any
  two clients (nil or not) it makes the same calls and returns the same result.
\<close>

theorem pullImage_ignores_client:
  "pullImage rt argA img tr = pullImage rt argB img tr"
  by (simp add: pullImage_def)

text \<open>
  C9. Once its own client is built, \<^verbatim>\<open>pullImage\<close> asks the runtime for the same image
  twice with that client. When the first pull fails, or the second, or the copy to
  standard output, it stops there and returns that error. The stream copied to standard
  output is the one the second pull returned; the stream of the first pull appears in no
  later call.
\<close>

theorem pullImage_pulls_twice:
  assumes "NewEnvClient rt tr = Inr cl"
  shows
    "(ImagePull rt (tr @ [EvNewEnvClient]) cl img = Inl err \<longrightarrow>
        pullImage rt arg img tr =
          (Some err, tr @ [EvNewEnvClient, EvImagePull cl img]))
     \<and> (ImagePull rt (tr @ [EvNewEnvClient]) cl img = Inr outA
          \<and> ImagePull rt (tr @ [EvNewEnvClient, EvImagePull cl img]) cl img = Inl err \<longrightarrow>
        pullImage rt arg img tr =
          (Some err, tr @ [EvNewEnvClient, EvImagePull cl img, EvImagePull cl img]))
     \<and> (ImagePull rt (tr @ [EvNewEnvClient]) cl img = Inr outA
          \<and> ImagePull rt (tr @ [EvNewEnvClient, EvImagePull cl img]) cl img = Inr outB
          \<and> Copy rt (tr @ [EvNewEnvClient, EvImagePull cl img, EvImagePull cl img]) outB
               = Some err \<longrightarrow>
        pullImage rt arg img tr =
          (Some err, tr @ [EvNewEnvClient, EvImagePull cl img, EvImagePull cl img,
                           EvCopyStdout outB]))
     \<and> (ImagePull rt (tr @ [EvNewEnvClient]) cl img = Inr outA
          \<and> ImagePull rt (tr @ [EvNewEnvClient, EvImagePull cl img]) cl img = Inr outB
          \<and> Copy rt (tr @ [EvNewEnvClient, EvImagePull cl img, EvImagePull cl img]) outB
               = None \<longrightarrow>
        pullImage rt arg img tr =
          (None, tr @ [EvNewEnvClient, EvImagePull cl img, EvImagePull cl img,
                       EvCopyStdout outB,
                       EvLogPrintf (''Successfully pulled image '' @ img)]))"
  using assms by (simp add: pullImage_def)

theorem pullImage_pulls_twice_witness:
  "NewEnvClient sample_runtime [] = Inr 7
   \<and> ImagePull sample_runtime ([] @ [EvNewEnvClient]) 7 ImageName = Inr 1
   \<and> ImagePull sample_runtime ([] @ [EvNewEnvClient, EvImagePull 7 ImageName]) 7 ImageName
        = Inr 2
   \<and> pullImage sample_runtime None ImageName [] =
        (None, [EvNewEnvClient, EvImagePull 7 ImageName, EvImagePull 7 ImageName,
                EvCopyStdout 2,
                EvLogPrintf (''Successfully pulled image '' @ ImageName)])
   \<and> pullImage
        (sample_runtime\<lparr>ImagePull := \<lambda>tr cl img.
           if length tr < 2 then Inr (length tr) else Inl (ErrOther ''connection reset'')\<rparr>)
        None ImageName [] =
        (Some (ErrOther ''connection reset''),
         [EvNewEnvClient, EvImagePull 7 ImageName, EvImagePull 7 ImageName])"
  using pullImage_pulls_twice
          [where rt = sample_runtime and tr = "[]" and cl = 7 and img = ImageName
             and outA = 1 and outB = 2 and arg = None]
        pullImage_pulls_twice
          [where rt = "sample_runtime\<lparr>ImagePull := \<lambda>tr cl img.
                  if length tr < 2 then Inr (length tr)
                  else Inl (ErrOther ''connection reset'')\<rparr>"
             and tr = "[]" and cl = 7 and img = ImageName and outA = 1
             and err = "ErrOther ''connection reset''" and arg = None]
  by (simp add: sample_runtime_def)

text \<open>
  C7. \<^verbatim>\<open>Start\<close> calls the runtime to start the container of the handle; when that
  succeeds it sleeps five seconds and returns no error, and when it fails it returns the
  error. \<^verbatim>\<open>Stop\<close> does the same with the call that stops the container, to which it
  passes a nil timeout.
\<close>

theorem Start_Stop_settle:
  "(ContainerStart rt tr (dockerClient l) (ContainerID l) = None \<longrightarrow>
      Start rt l tr =
        (None, tr @ [EvContainerStart (dockerClient l) (ContainerID l),
                     EvSleep 5000000000]))
   \<and> (ContainerStart rt tr (dockerClient l) (ContainerID l) = Some err \<longrightarrow>
      Start rt l tr = (Some err, tr @ [EvContainerStart (dockerClient l) (ContainerID l)]))
   \<and> (ContainerStop rt tr (dockerClient l) (ContainerID l) None = None \<longrightarrow>
      Stop rt l tr =
        (None, tr @ [EvContainerStop (dockerClient l) (ContainerID l) None,
                     EvSleep 5000000000]))
   \<and> (ContainerStop rt tr (dockerClient l) (ContainerID l) None = Some err \<longrightarrow>
      Stop rt l tr =
        (Some err, tr @ [EvContainerStop (dockerClient l) (ContainerID l) None]))"
  by (simp add: Start_def Stop_def Second_def)

theorem Start_Stop_settle_witness:
  "ContainerStart sample_runtime [] (dockerClient sample_handle) (ContainerID sample_handle)
     = None
   \<and> Start sample_runtime sample_handle [] =
       (None, [EvContainerStart 7 ''c0ffee'', EvSleep 5000000000])
   \<and> Stop sample_runtime sample_handle [EvContainerStart 7 ''c0ffee'', EvSleep 5000000000] =
       (None, [EvContainerStart 7 ''c0ffee'', EvSleep 5000000000,
               EvContainerStop 7 ''c0ffee'' None, EvSleep 5000000000])
   \<and> Start (sample_runtime\<lparr>ContainerStart := \<lambda>tr cl ident.
               Some (ErrOther ''No such container'')\<rparr>) sample_handle [] =
       (Some (ErrOther ''No such container''), [EvContainerStart 7 ''c0ffee''])
   \<and> Stop (sample_runtime\<lparr>ContainerStop := \<lambda>tr cl ident t.
               Some (ErrOther ''No such container'')\<rparr>) sample_handle [] =
       (Some (ErrOther ''No such container''), [EvContainerStop 7 ''c0ffee'' None])"
  using Start_Stop_settle [where rt = sample_runtime and l = sample_handle and tr = "[]"]
        Start_Stop_settle
          [where rt = sample_runtime and l = sample_handle
             and tr = "[EvContainerStart 7 ''c0ffee'', EvSleep 5000000000]"]
        Start_Stop_settle
          [where rt = "sample_runtime\<lparr>ContainerStart := \<lambda>tr cl ident.
                  Some (ErrOther ''No such container'')\<rparr>"
             and l = sample_handle and tr = "[]" and err = "ErrOther ''No such container''"]
        Start_Stop_settle
          [where rt = "sample_runtime\<lparr>ContainerStop := \<lambda>tr cl ident t.
                  Some (ErrOther ''No such container'')\<rparr>"
             and l = sample_handle and tr = "[]" and err = "ErrOther ''No such container''"]
  by (simp add: sample_runtime_def sample_handle_def)

text \<open>
  C6. \<^verbatim>\<open>New\<close> returns a handle exactly when it returns no error; it fails to return
  only by the panic on a nil selection. When building the client fails, or pulling the
  image, or resolving the host configuration, or creating the container, the error of
  that step is returned and the handle is nil; when every step succeeds the handle
  carries the identifier the runtime gave to the container. The container is created
  once, after the events of the pull and the log lines that could be rendered, and it is
  the answer of the runtime to that one call that decides between the handle and the
  error.
\<close>

theorem New_handle_or_error:
  "(case fst (New rt reg cfgs tr) of
      Panicked \<Rightarrow> None \<in> set cfgs
    | Returned (h, e) \<Rightarrow> (h = None) = (e \<noteq> None))
   \<and> (NewEnvClient rt tr = Inl err \<longrightarrow>
        fst (New rt reg cfgs tr) = Returned (None, Some err))
   \<and> (NewEnvClient rt tr = Inr cl
        \<and> fst (pullImage rt (Some cl) ImageName (tr @ [EvNewEnvClient])) = Some err \<longrightarrow>
        fst (New rt reg cfgs tr) = Returned (None, Some err))
   \<and> (NewEnvClient rt tr = Inr cl
        \<and> fst (pullImage rt (Some cl) ImageName (tr @ [EvNewEnvClient])) = None
        \<and> hostConfig reg (map Some sels) = Returned (hc, Some err) \<longrightarrow>
        fst (New rt reg (map Some sels) tr) = Returned (None, Some err))
   \<and> (NewEnvClient rt tr = Inr cl
        \<and> pullImage rt (Some cl) ImageName (tr @ [EvNewEnvClient]) = (None, pulled)
        \<and> containerConfig (MapToLower rt) reg ImageName (map Some sels) = Returned ccfg
        \<and> hostConfig reg (map Some sels) = Returned (Some hcfg, None)
        \<and> logged = pulled
             @ (case MarshalIndentConfig rt ccfg of
                  Inl _ \<Rightarrow> []
                | Inr c \<Rightarrow> [EvLogPrintf (''Container config is '' @ c)])
             @ (case MarshalIndentPorts rt (PortBindings hcfg) of
                  Inl _ \<Rightarrow> []
                | Inr p \<Rightarrow> [EvLogPrintf (''Host Config port bindings are '' @ p)])
        \<and> ContainerCreate rt logged cl ccfg hcfg = Inl err \<longrightarrow>
        New rt reg (map Some sels) tr =
          (Returned (None, Some err), logged @ [EvContainerCreate cl ccfg hcfg]))
   \<and> (NewEnvClient rt tr = Inr cl
        \<and> pullImage rt (Some cl) ImageName (tr @ [EvNewEnvClient]) = (None, pulled)
        \<and> containerConfig (MapToLower rt) reg ImageName (map Some sels) = Returned ccfg
        \<and> hostConfig reg (map Some sels) = Returned (Some hcfg, None)
        \<and> logged = pulled
             @ (case MarshalIndentConfig rt ccfg of
                  Inl _ \<Rightarrow> []
                | Inr c \<Rightarrow> [EvLogPrintf (''Container config is '' @ c)])
             @ (case MarshalIndentPorts rt (PortBindings hcfg) of
                  Inl _ \<Rightarrow> []
                | Inr p \<Rightarrow> [EvLogPrintf (''Host Config port bindings are '' @ p)])
        \<and> ContainerCreate rt logged cl ccfg hcfg = Inr ident \<longrightarrow>
        New rt reg (map Some sels) tr =
          (Returned (Some \<lparr>ContainerID = ident, dockerClient = cl, dockerContext = (),
                           containerConfig_field = ccfg, hostConfig_field = hcfg\<rparr>, None),
           logged @ [EvContainerCreate cl ccfg hcfg]))"
proof (intro conjI impI)
  show "case fst (New rt reg cfgs tr) of
          Panicked \<Rightarrow> None \<in> set cfgs
        | Returned (h, e) \<Rightarrow> (h = None) = (e \<noteq> None)"
    by (auto split: outcome.splits dest: New_pair New_Panicked)
next
  assume "NewEnvClient rt tr = Inl err"
  then show "fst (New rt reg cfgs tr) = Returned (None, Some err)"
    by (simp add: New_def)
next
  assume "NewEnvClient rt tr = Inr cl
        \<and> fst (pullImage rt (Some cl) ImageName (tr @ [EvNewEnvClient])) = Some err"
  then show "fst (New rt reg cfgs tr) = Returned (None, Some err)"
    by (auto simp: New_def split: prod.splits option.splits)
next
  assume a: "NewEnvClient rt tr = Inr cl
        \<and> fst (pullImage rt (Some cl) ImageName (tr @ [EvNewEnvClient])) = None
        \<and> hostConfig reg (map Some sels) = Returned (hc, Some err)"
  obtain ccfg
    where "containerConfig (MapToLower rt) reg ImageName (map Some sels) = Returned ccfg"
    using containerConfig_Some [of "MapToLower rt" reg ImageName sels] by auto
  with a show "fst (New rt reg (map Some sels) tr) = Returned (None, Some err)"
    by (auto simp: New_def Let_def split: prod.splits option.splits)
next
  assume "NewEnvClient rt tr = Inr cl
        \<and> pullImage rt (Some cl) ImageName (tr @ [EvNewEnvClient]) = (None, pulled)
        \<and> containerConfig (MapToLower rt) reg ImageName (map Some sels) = Returned ccfg
        \<and> hostConfig reg (map Some sels) = Returned (Some hcfg, None)
        \<and> logged = pulled
             @ (case MarshalIndentConfig rt ccfg of
                  Inl _ \<Rightarrow> []
                | Inr c \<Rightarrow> [EvLogPrintf (''Container config is '' @ c)])
             @ (case MarshalIndentPorts rt (PortBindings hcfg) of
                  Inl _ \<Rightarrow> []
                | Inr p \<Rightarrow> [EvLogPrintf (''Host Config port bindings are '' @ p)])
        \<and> ContainerCreate rt logged cl ccfg hcfg = Inl err"
  then show "New rt reg (map Some sels) tr =
          (Returned (None, Some err), logged @ [EvContainerCreate cl ccfg hcfg])"
    by (auto simp: New_def Let_def split: sum.splits)
next
  assume "NewEnvClient rt tr = Inr cl
        \<and> pullImage rt (Some cl) ImageName (tr @ [EvNewEnvClient]) = (None, pulled)
        \<and> containerConfig (MapToLower rt) reg ImageName (map Some sels) = Returned ccfg
        \<and> hostConfig reg (map Some sels) = Returned (Some hcfg, None)
        \<and> logged = pulled
             @ (case MarshalIndentConfig rt ccfg of
                  Inl _ \<Rightarrow> []
                | Inr c \<Rightarrow> [EvLogPrintf (''Container config is '' @ c)])
             @ (case MarshalIndentPorts rt (PortBindings hcfg) of
                  Inl _ \<Rightarrow> []
                | Inr p \<Rightarrow> [EvLogPrintf (''Host Config port bindings are '' @ p)])
        \<and> ContainerCreate rt logged cl ccfg hcfg = Inr ident"
  then show "New rt reg (map Some sels) tr =
          (Returned (Some \<lparr>ContainerID = ident, dockerClient = cl, dockerContext = (),
                           containerConfig_field = ccfg, hostConfig_field = hcfg\<rparr>, None),
           logged @ [EvContainerCreate cl ccfg hcfg])"
    by (auto simp: New_def Let_def split: sum.splits)
qed

theorem New_handle_or_error_witness:
  "NewEnvClient sample_runtime [] = Inr 7
   \<and> pullImage sample_runtime (Some 7) ImageName ([] @ [EvNewEnvClient]) =
       (None, [EvNewEnvClient, EvNewEnvClient, EvImagePull 7 ImageName,
               EvImagePull 7 ImageName, EvCopyStdout 3,
               EvLogPrintf (''Successfully pulled image '' @ ImageName)])
   \<and> New sample_runtime sample_registry (map Some [\<lparr>Service = S3, Port = 9000\<rparr>]) [] =
       (Returned
          (Some \<lparr>ContainerID = ''c0ffee'', dockerClient = 7, dockerContext = (),
                 containerConfig_field = \<lparr>Image = ImageName, Env = [''SERVICES=s3'']\<rparr>,
                 hostConfig_field = \<lparr>PortBindings =
                   [''4572/tcp'' \<mapsto> [\<lparr>HostIP = ''0.0.0.0'', HostPort = ''9000''\<rparr>]]\<rparr>\<rparr>,
           None),
        [EvNewEnvClient, EvNewEnvClient, EvImagePull 7 ImageName,
         EvImagePull 7 ImageName, EvCopyStdout 3,
         EvLogPrintf (''Successfully pulled image '' @ ImageName),
         EvLogPrintf (''Container config is '' @ ImageName)]
        @ [EvContainerCreate 7 \<lparr>Image = ImageName, Env = [''SERVICES=s3'']\<rparr>
             \<lparr>PortBindings =
                [''4572/tcp'' \<mapsto> [\<lparr>HostIP = ''0.0.0.0'', HostPort = ''9000''\<rparr>]]\<rparr>])
   \<and> New (sample_runtime\<lparr>ContainerCreate := \<lambda>tr cl c h.
              if length tr = 7 then Inl (ErrOther ''Conflict'') else Inr ''c0ffee''\<rparr>)
         sample_registry (map Some [\<lparr>Service = S3, Port = 9000\<rparr>]) [] =
       (Returned (None, Some (ErrOther ''Conflict'')),
        [EvNewEnvClient, EvNewEnvClient, EvImagePull 7 ImageName,
         EvImagePull 7 ImageName, EvCopyStdout 3,
         EvLogPrintf (''Successfully pulled image '' @ ImageName),
         EvLogPrintf (''Container config is '' @ ImageName)]
        @ [EvContainerCreate 7 \<lparr>Image = ImageName, Env = [''SERVICES=s3'']\<rparr>
             \<lparr>PortBindings =
                [''4572/tcp'' \<mapsto> [\<lparr>HostIP = ''0.0.0.0'', HostPort = ''9000''\<rparr>]]\<rparr>])
   \<and> hostConfig sample_registry (map Some [\<lparr>Service = Unlisted, Port = 0\<rparr>]) =
       Returned (None, Some (ErrOther ''unsupported service''))
   \<and> fst (New sample_runtime sample_registry (map Some [\<lparr>Service = Unlisted, Port = 0\<rparr>]) []) =
       Returned (None, Some (ErrOther ''unsupported service''))
   \<and> fst (New (sample_runtime\<lparr>NewEnvClient := \<lambda>tr. Inl (ErrOther ''cannot connect'')\<rparr>)
            sample_registry (map Some [\<lparr>Service = S3, Port = 9000\<rparr>]) []) =
       Returned (None, Some (ErrOther ''cannot connect''))"
proof -
  let ?ccfg = "\<lparr>Image = ImageName, Env = [''SERVICES=s3'']\<rparr>"
  let ?hcfg = "\<lparr>PortBindings =
                  [''4572/tcp'' \<mapsto> [\<lparr>HostIP = ''0.0.0.0'', HostPort = ''9000''\<rparr>]]\<rparr>"
  let ?pulled = "[EvNewEnvClient, EvNewEnvClient, EvImagePull 7 ImageName,
               EvImagePull 7 ImageName, EvCopyStdout 3,
               EvLogPrintf (''Successfully pulled image '' @ ImageName)]"
  let ?logged = "?pulled @ [EvLogPrintf (''Container config is '' @ ImageName)]"
  let ?conflict = "sample_runtime\<lparr>ContainerCreate := \<lambda>tr cl c h.
              if length tr = 7 then Inl (ErrOther ''Conflict'') else Inr ''c0ffee''\<rparr>"
  have client: "NewEnvClient sample_runtime [] = Inr 7"
    "NewEnvClient ?conflict [] = Inr 7"
    by (simp_all add: sample_runtime_def)
  have pull: "pullImage sample_runtime (Some 7) ImageName ([] @ [EvNewEnvClient]) =
                (None, ?pulled)"
    "pullImage ?conflict (Some 7) ImageName ([] @ [EvNewEnvClient]) = (None, ?pulled)"
    by (simp_all add: pullImage_def sample_runtime_def)
  have cc: "containerConfig (MapToLower sample_runtime) sample_registry ImageName
              (map Some [\<lparr>Service = S3, Port = 9000\<rparr>]) = Returned ?ccfg"
    "containerConfig (MapToLower ?conflict) sample_registry ImageName
              (map Some [\<lparr>Service = S3, Port = 9000\<rparr>]) = Returned ?ccfg"
    by (simp_all add: containerConfig_def sample_registry_def run_library)
  have hc: "hostConfig sample_registry (map Some [\<lparr>Service = S3, Port = 9000\<rparr>])
              = Returned (Some ?hcfg, None)"
    by (simp add: hostConfig_def getMappingForServiceConfig_def sample_registry_def
        run_library)
  have logged: "?logged = ?pulled
             @ (case MarshalIndentConfig sample_runtime ?ccfg of
                  Inl _ \<Rightarrow> []
                | Inr c \<Rightarrow> [EvLogPrintf (''Container config is '' @ c)])
             @ (case MarshalIndentPorts sample_runtime (PortBindings ?hcfg) of
                  Inl _ \<Rightarrow> []
                | Inr p \<Rightarrow> [EvLogPrintf (''Host Config port bindings are '' @ p)])"
    "?logged = ?pulled
             @ (case MarshalIndentConfig ?conflict ?ccfg of
                  Inl _ \<Rightarrow> []
                | Inr c \<Rightarrow> [EvLogPrintf (''Container config is '' @ c)])
             @ (case MarshalIndentPorts ?conflict (PortBindings ?hcfg) of
                  Inl _ \<Rightarrow> []
                | Inr p \<Rightarrow> [EvLogPrintf (''Host Config port bindings are '' @ p)])"
    by (simp_all add: sample_runtime_def)
  have create: "ContainerCreate sample_runtime ?logged 7 ?ccfg ?hcfg = Inr ''c0ffee''"
    "ContainerCreate ?conflict ?logged 7 ?ccfg ?hcfg = Inl (ErrOther ''Conflict'')"
    by (simp_all add: sample_runtime_def)
  have bad: "hostConfig sample_registry (map Some [\<lparr>Service = Unlisted, Port = 0\<rparr>]) =
       Returned (None, Some (ErrOther ''unsupported service''))"
    by (simp add: hostConfig_def getMappingForServiceConfig_def sample_registry_def)
  have noclient:
    "NewEnvClient (sample_runtime\<lparr>NewEnvClient := \<lambda>tr. Inl (ErrOther ''cannot connect'')\<rparr>) []
       = Inl (ErrOther ''cannot connect'')"
    by simp
  from New_handle_or_error
         [where rt = sample_runtime and reg = sample_registry and tr = "[]" and cl = 7
            and sels = "[\<lparr>Service = S3, Port = 9000\<rparr>]" and ccfg = ?ccfg and hcfg = ?hcfg
            and pulled = ?pulled and logged = ?logged and ident = "''c0ffee''"]
       client(1) pull(1) cc(1) hc logged(1) create(1)
  have ok: "New sample_runtime sample_registry (map Some [\<lparr>Service = S3, Port = 9000\<rparr>]) [] =
       (Returned
          (Some \<lparr>ContainerID = ''c0ffee'', dockerClient = 7, dockerContext = (),
                 containerConfig_field = ?ccfg, hostConfig_field = ?hcfg\<rparr>, None),
        ?logged @ [EvContainerCreate 7 ?ccfg ?hcfg])"
    by blast
  from New_handle_or_error
         [where rt = ?conflict and reg = sample_registry and tr = "[]" and cl = 7
            and sels = "[\<lparr>Service = S3, Port = 9000\<rparr>]" and ccfg = ?ccfg and hcfg = ?hcfg
            and pulled = ?pulled and logged = ?logged and err = "ErrOther ''Conflict''"]
       client(2) pull(2) cc(2) hc logged(2) create(2)
  have conflict: "New ?conflict sample_registry (map Some [\<lparr>Service = S3, Port = 9000\<rparr>]) [] =
       (Returned (None, Some (ErrOther ''Conflict'')),
        ?logged @ [EvContainerCreate 7 ?ccfg ?hcfg])"
    by blast
  from pull(1) have pulled: "fst (pullImage sample_runtime (Some 7) ImageName
                                    ([] @ [EvNewEnvClient])) = None"
    by simp
  from New_handle_or_error
         [where rt = sample_runtime and reg = sample_registry and tr = "[]" and cl = 7
            and sels = "[\<lparr>Service = Unlisted, Port = 0\<rparr>]" and hc = None
            and err = "ErrOther ''unsupported service''"]
       client(1) pulled bad
  have failed: "fst (New sample_runtime sample_registry
                       (map Some [\<lparr>Service = Unlisted, Port = 0\<rparr>]) []) =
       Returned (None, Some (ErrOther ''unsupported service''))"
    by blast
  from New_handle_or_error
         [where rt = "sample_runtime\<lparr>NewEnvClient := \<lambda>tr. Inl (ErrOther ''cannot connect'')\<rparr>"
            and reg = sample_registry and tr = "[]"
            and cfgs = "map Some [\<lparr>Service = S3, Port = 9000\<rparr>]"
            and err = "ErrOther ''cannot connect''"]
       noclient
  have unreachable:
    "fst (New (sample_runtime\<lparr>NewEnvClient := \<lambda>tr. Inl (ErrOther ''cannot connect'')\<rparr>)
            sample_registry (map Some [\<lparr>Service = S3, Port = 9000\<rparr>]) []) =
       Returned (None, Some (ErrOther ''cannot connect''))"
    by blast
  from ok conflict have traces:
    "New sample_runtime sample_registry (map Some [\<lparr>Service = S3, Port = 9000\<rparr>]) [] =
       (Returned
          (Some \<lparr>ContainerID = ''c0ffee'', dockerClient = 7, dockerContext = (),
                 containerConfig_field = ?ccfg, hostConfig_field = ?hcfg\<rparr>, None),
        [EvNewEnvClient, EvNewEnvClient, EvImagePull 7 ImageName,
         EvImagePull 7 ImageName, EvCopyStdout 3,
         EvLogPrintf (''Successfully pulled image '' @ ImageName),
         EvLogPrintf (''Container config is '' @ ImageName)]
        @ [EvContainerCreate 7 ?ccfg ?hcfg])"
    "New ?conflict sample_registry (map Some [\<lparr>Service = S3, Port = 9000\<rparr>]) [] =
       (Returned (None, Some (ErrOther ''Conflict'')),
        [EvNewEnvClient, EvNewEnvClient, EvImagePull 7 ImageName,
         EvImagePull 7 ImageName, EvCopyStdout 3,
         EvLogPrintf (''Successfully pulled image '' @ ImageName),
         EvLogPrintf (''Container config is '' @ ImageName)]
        @ [EvContainerCreate 7 ?ccfg ?hcfg])"
    by simp_all
  from client(1) pull(1) traces bad failed unreachable show ?thesis by blast
qed

end
